theory Spec2Isabelle
  imports Complex_Main "HOL-Library.AList"
begin

section \<open>Feature engineering for anomaly pair matching (training/features.py)\<close>

text \<open>
  Python floats are modelled as \<^typ>\<open>real\<close>, \<open>Optional[T]\<close> as \<^typ>\<open>'a option\<close>,
  \<open>str\<close> as \<^typ>\<open>string\<close>. A numpy array of float64 is a \<^typ>\<open>real list\<close>; writing to
  an index outside the array raises \<open>IndexError\<close> in numpy and is an error value here.
\<close>

datatype py_error =
    IndexError
  | SystemExit string int   \<comment> \<open>\<open>sys.exit(code)\<close>, with the diagnostic printed just before it\<close>

definition bind_err :: "'e + 'a \<Rightarrow> ('a \<Rightarrow> 'e + 'b) \<Rightarrow> 'e + 'b" where
  "bind_err m f = (case m of Inl e \<Rightarrow> Inl e | Inr v \<Rightarrow> f v)"

subsection \<open>The type compatibility matrix and the feature schema\<close>

definition TYPE_COMPAT :: "((string \<times> string) \<times> real) list" where
  "TYPE_COMPAT =
    [((''METAL_LOSS'', ''METAL_LOSS''), 1),
     ((''DENT'', ''DENT''), 1),
     ((''CRACK'', ''CRACK''), 1),
     ((''WELD'', ''WELD''), 1),
     ((''GIRTH_WELD'', ''GIRTH_WELD''), 1),
     ((''CLUSTER'', ''CLUSTER''), 1),
     ((''METAL_LOSS'', ''CORROSION''), 9 / 10),
     ((''CORROSION'', ''METAL_LOSS''), 9 / 10),
     ((''METAL_LOSS'', ''CLUSTER''), 85 / 100),
     ((''CLUSTER'', ''METAL_LOSS''), 85 / 100),
     ((''DENT'', ''DEFORMATION''), 85 / 100),
     ((''DEFORMATION'', ''DENT''), 85 / 100),
     ((''CRACK'', ''CRACK_LIKE''), 8 / 10),
     ((''CRACK_LIKE'', ''CRACK''), 8 / 10),
     ((''METAL_LOSS_MFG'', ''METAL_LOSS_MFG''), 1),
     ((''METAL_LOSS'', ''METAL_LOSS_MFG''), 7 / 10),
     ((''METAL_LOSS_MFG'', ''METAL_LOSS''), 7 / 10)]"

definition FEATURE_NAMES :: "string list" where
  "FEATURE_NAMES =
    [''abs_delta_distance_ft'',
     ''abs_delta_clock_hrs'',
     ''same_weld_segment'',
     ''abs_delta_depth_pct'',
     ''abs_delta_length_in'',
     ''abs_delta_width_in'',
     ''abs_delta_wall_thickness_in'',
     ''type_compatibility'',
     ''run_gap_years'',
     ''api_1163_tool_weight'',
     ''dtw_residual'',
     ''icp_residual'',
     ''anchor_density_in_segment'']"

definition NUM_FEATURES :: nat where
  "NUM_FEATURES = length FEATURE_NAMES"

record AnomalyRecord =
  feature_id :: string
  run_id :: string
  event_type :: string
  corrected_distance_ft :: real
  log_distance_ft :: real
  clock_position_hrs :: "real option"
  depth_percent :: "real option"
  length_in :: "real option"
  width_in :: "real option"
  wall_thickness_in :: "real option"
  joint_number :: "int option"
  dist_to_upstream_weld_ft :: "real option"

record PairContext =
  run_gap_years :: real
  api_1163_tool_weight :: real
  dtw_residual :: "real option"
  icp_residual :: "real option"
  anchor_density :: "real option"

subsection \<open>The per-slot computations\<close>

definition clock_delta_wrap_aware :: "real option \<Rightarrow> real option \<Rightarrow> real" where
  "clock_delta_wrap_aware a b =
     (case (a, b) of
        (Some x, Some y) \<Rightarrow>
          (let raw = \<bar>x - y\<bar> in if raw > 6 then 12 - raw else raw)
      | _ \<Rightarrow> - 1)"

definition safe_abs_delta :: "real option \<Rightarrow> real option \<Rightarrow> real \<Rightarrow> real" where
  "safe_abs_delta a b missing =
     (case (a, b) of (Some x, Some y) \<Rightarrow> \<bar>x - y\<bar> | _ \<Rightarrow> missing)"

definition type_compat_score :: "string \<Rightarrow> string \<Rightarrow> real" where
  "type_compat_score t1 t2 =
     (if t1 = t2 then 1
      else (case map_of TYPE_COMPAT (t1, t2) of Some s \<Rightarrow> s | None \<Rightarrow> 0))"

definition same_weld_segment :: "AnomalyRecord \<Rightarrow> AnomalyRecord \<Rightarrow> real" where
  "same_weld_segment a b =
     (case (joint_number a, joint_number b) of
        (Some ja, Some jb) \<Rightarrow> (if ja = jb then 1 else 0)
      | _ \<Rightarrow>
          (let dist_diff = \<bar>corrected_distance_ft a - corrected_distance_ft b\<bar>
           in if dist_diff < 40 then 1 else 0))"

subsection \<open>The feature vector\<close>

definition np_full :: "nat \<Rightarrow> real \<Rightarrow> real list" where
  "np_full n v = replicate n v"

definition np_setitem :: "real list \<Rightarrow> nat \<Rightarrow> real \<Rightarrow> py_error + real list" where
  "np_setitem feats i v = (if i < length feats then Inr (feats[i := v]) else Inl IndexError)"

definition extract_features ::
  "AnomalyRecord \<Rightarrow> AnomalyRecord \<Rightarrow> PairContext \<Rightarrow> py_error + real list" where
  "extract_features older newer ctx =
     bind_err (Inr (np_full NUM_FEATURES (- 1))) (\<lambda>feats.
     bind_err (np_setitem feats 0 \<bar>corrected_distance_ft older - corrected_distance_ft newer\<bar>) (\<lambda>feats.
     bind_err (np_setitem feats 1
                 (clock_delta_wrap_aware (clock_position_hrs older) (clock_position_hrs newer))) (\<lambda>feats.
     bind_err (np_setitem feats 2 (same_weld_segment older newer)) (\<lambda>feats.
     bind_err (np_setitem feats 3 (safe_abs_delta (depth_percent older) (depth_percent newer) (- 1))) (\<lambda>feats.
     bind_err (np_setitem feats 4 (safe_abs_delta (length_in older) (length_in newer) (- 1))) (\<lambda>feats.
     bind_err (np_setitem feats 5 (safe_abs_delta (width_in older) (width_in newer) (- 1))) (\<lambda>feats.
     bind_err (np_setitem feats 6
                 (safe_abs_delta (wall_thickness_in older) (wall_thickness_in newer) (- 1))) (\<lambda>feats.
     bind_err (np_setitem feats 7 (type_compat_score (event_type older) (event_type newer))) (\<lambda>feats.
     bind_err (np_setitem feats 8 (run_gap_years ctx)) (\<lambda>feats.
     bind_err (np_setitem feats 9 (api_1163_tool_weight ctx)) (\<lambda>feats.
     bind_err (np_setitem feats 10 (case dtw_residual ctx of Some r \<Rightarrow> r | None \<Rightarrow> - 1)) (\<lambda>feats.
     bind_err (np_setitem feats 11 (case icp_residual ctx of Some r \<Rightarrow> r | None \<Rightarrow> - 1)) (\<lambda>feats.
     bind_err (np_setitem feats 12 (case anchor_density ctx of Some r \<Rightarrow> r | None \<Rightarrow> - 1)) (\<lambda>feats.
     Inr feats))))))))))))))"

section \<open>Training dataset construction (training/build_dataset.py)\<close>

subsection \<open>The record store\<close>

text \<open>
  Documents are dictionaries in the source. They are modelled by the schema the code reads:
  one record per collection kind, a field of type \<^typ>\<open>'a option\<close> being \<open>None\<close> when the
  key is absent. Identifiers are modelled by the string that \<open>str()\<close> gives for them.
  A database answers \<open>list_collection_names()\<close> and \<open>db[name].find({})\<close>; a collection that
  does not exist yields no documents. The order of each document list is the cursor order.
\<close>

record MatchedPairDoc =
  mp_job_id :: "string option"
  mp_run_a_feature_id :: "string option"
  mp_run_b_feature_id :: "string option"
  mp_run_a_run_id :: "string option"
  mp_run_b_run_id :: "string option"
  mp_confidence_score :: "real option"
  mp_confidence_category :: "string option"

datatype ToolQualification =
    TQ_dict "real option"   \<comment> \<open>a dictionary, with its \<open>confidence_weight\<close> if present\<close>
  | TQ_other                \<comment> \<open>any value that is not a dictionary\<close>

record RunDoc =
  run_doc_id :: string
  run_year :: "real option"
  run_tool_qualification :: "ToolQualification option"

record FeatureDoc =
  feat_doc_id :: string
  feat_run_id :: "string option"
  feat_event_type_canonical :: "string option"
  feat_event_type_raw :: "string option"
  feat_corrected_distance_ft :: "real option"
  feat_log_distance_ft :: "real option"
  feat_clock_decimal :: "real option"
  feat_depth_percent :: "real option"
  feat_length_in :: "real option"
  feat_width_in :: "real option"
  feat_wall_thickness_in :: "real option"
  feat_joint_number :: "int option"
  feat_dist_to_upstream_weld_ft :: "real option"
  feat_is_reference_point :: bool

record Database =
  list_collection_names :: "string list"
  matched_pair_docs :: "string \<Rightarrow> MatchedPairDoc list"
  run_docs :: "string \<Rightarrow> RunDoc list"
  feature_docs :: "string \<Rightarrow> FeatureDoc list"

subsection \<open>The runtime: set iteration order and the two random generators\<close>

text \<open>
  What the interpreter and its libraries decide is a parameter of the model.
  \<open>set_iteration\<close> is the order in which \<open>list(s)\<close> enumerates a set of identifiers (it
  depends on string hashing); the argument lists the elements in insertion order.
  \<open>random_seed\<close>, \<open>random_sample2\<close> and \<open>random_choice\<close> are \<open>random.seed\<close>,
  \<open>random.sample(population, 2)\<close> and \<open>random.choice\<close> on an explicit generator state,
  returning positions in a population of the given size.
  \<open>np_random_permutation seed n\<close> is \<open>np.random.permutation(n)\<close> after \<open>np.random.seed(seed)\<close>;
  nothing else draws from numpy's generator.
\<close>

record 'g Runtime =
  set_iteration :: "string option list \<Rightarrow> string option list"
  random_seed :: "int \<Rightarrow> 'g"
  random_sample2 :: "'g \<Rightarrow> nat \<Rightarrow> (nat \<times> nat) \<times> 'g"
  random_choice :: "'g \<Rightarrow> nat \<Rightarrow> nat \<times> 'g"
  np_random_permutation :: "int \<Rightarrow> nat \<Rightarrow> nat list"

record BuildArgs =
  neg_pos_ratio :: real
  arg_hard_neg_dist_ft :: real
  arg_hard_neg_clock_hrs :: real
  seed :: int

subsection \<open>Python helpers\<close>

definition lower_char :: "char \<Rightarrow> char" where
  "lower_char c =
     (let n = (of_char c :: nat) in if 65 \<le> n \<and> n \<le> 90 then char_of (n + 32) else c)"

definition lower :: "string \<Rightarrow> string" where
  "lower s = map lower_char s"

definition get_str :: "string option \<Rightarrow> string" where
  \<comment> \<open>\<open>str(doc.get(key, ""))\<close>\<close>
  "get_str v = (case v of Some s \<Rightarrow> s | None \<Rightarrow> [])"

definition or_zero :: "real option \<Rightarrow> real" where
  \<comment> \<open>\<open>doc.get(key) or 0.0\<close>: \<open>None\<close> and zero are both falsy\<close>
  "or_zero v = (case v of Some x \<Rightarrow> (if x \<noteq> 0 then x else 0) | None \<Rightarrow> 0)"

definition py_int :: "real \<Rightarrow> int" where
  \<comment> \<open>\<open>int(x)\<close> truncates towards zero\<close>
  "py_int x = (if 0 \<le> x then \<lfloor>x\<rfloor> else \<lceil>x\<rceil>)"

definition set_add :: "'a \<Rightarrow> 'a list \<Rightarrow> 'a list" where
  "set_add x s = (if x \<in> set s then s else s @ [x])"

definition list_getitem :: "'a list \<Rightarrow> nat \<Rightarrow> py_error + 'a" where
  "list_getitem xs i = (if i < length xs then Inr (xs ! i) else Inl IndexError)"

fun take_rows :: "'a list \<Rightarrow> nat list \<Rightarrow> py_error + 'a list" where
  "take_rows xs [] = Inr []"
| "take_rows xs (i # is) =
     bind_err (list_getitem xs i) (\<lambda>x. bind_err (take_rows xs is) (\<lambda>rest. Inr (x # rest)))"

subsection \<open>Documents to records and contexts\<close>

definition feat_to_record :: "FeatureDoc \<Rightarrow> AnomalyRecord" where
  "feat_to_record doc =
     \<lparr>feature_id = feat_doc_id doc,
      run_id = get_str (feat_run_id doc),
      event_type =
        (case feat_event_type_canonical doc of
           Some t \<Rightarrow> t
         | None \<Rightarrow> (case feat_event_type_raw doc of Some t \<Rightarrow> t | None \<Rightarrow> ''OTHER'')),
      corrected_distance_ft =
        (case feat_corrected_distance_ft doc of
           Some x \<Rightarrow> (if x \<noteq> 0 then x else or_zero (feat_log_distance_ft doc))
         | None \<Rightarrow> or_zero (feat_log_distance_ft doc)),
      log_distance_ft = or_zero (feat_log_distance_ft doc),
      clock_position_hrs = feat_clock_decimal doc,
      depth_percent = feat_depth_percent doc,
      length_in = feat_length_in doc,
      width_in = feat_width_in doc,
      wall_thickness_in = feat_wall_thickness_in doc,
      joint_number = feat_joint_number doc,
      dist_to_upstream_weld_ft = feat_dist_to_upstream_weld_ft doc\<rparr>"

text \<open>
  The run context of a pair; the source repeats this block for positives, hard negatives
  and easy negatives. A run that is not in \<open>runs_by_id\<close> is the empty dictionary there,
  \<open>None\<close> here.
\<close>

definition get_year :: "RunDoc option \<Rightarrow> real \<Rightarrow> real" where
  "get_year run dflt =
     (case run of
        None \<Rightarrow> dflt
      | Some r \<Rightarrow> (case run_year r of Some y \<Rightarrow> y | None \<Rightarrow> dflt))"

definition get_tool_weight :: "RunDoc option \<Rightarrow> real" where
  "get_tool_weight b_run =
     (case b_run of
        None \<Rightarrow> 85 / 100
      | Some r \<Rightarrow>
          (case run_tool_qualification r of
             None \<Rightarrow> 85 / 100
           | Some TQ_other \<Rightarrow> 85 / 100
           | Some (TQ_dict w) \<Rightarrow> (case w of Some x \<Rightarrow> x | None \<Rightarrow> 85 / 100)))"

definition pair_context :: "RunDoc option \<Rightarrow> RunDoc option \<Rightarrow> PairContext" where
  "pair_context a_run b_run =
     (let year_a = get_year a_run 2000;
          year_b = get_year b_run 2005;
          tool_weight = get_tool_weight b_run
      in \<lparr>run_gap_years = \<bar>year_b - year_a\<bar>,
          api_1163_tool_weight = tool_weight,
          dtw_residual = None, icp_residual = None, anchor_density = None\<rparr>)"

subsection \<open>Loading the collections\<close>

fun probe_matched_pairs :: "Database \<Rightarrow> string list \<Rightarrow> string list \<Rightarrow> MatchedPairDoc list" where
  "probe_matched_pairs db collections [] = []"
| "probe_matched_pairs db collections (name # names) =
     (if lower name \<in> set (map lower collections)
      then (case filter (\<lambda>c. lower c = lower name) collections of
              actual # _ \<Rightarrow> matched_pair_docs db actual
            | [] \<Rightarrow> [])
      else probe_matched_pairs db collections names)"

definition load_matched_pairs :: "Database \<Rightarrow> MatchedPairDoc list" where
  "load_matched_pairs db =
     (let matched_pairs = matched_pair_docs db ''matchedpairs''
      in if matched_pairs = []
         then probe_matched_pairs db (list_collection_names db)
                [''MatchedPairs'', ''matched_pairs'', ''matchedPairs'', ''matchedpair'']
         else matched_pairs)"

definition index_runs :: "RunDoc list \<Rightarrow> (string \<times> RunDoc) list \<Rightarrow> (string \<times> RunDoc) list" where
  "index_runs docs runs_by_id = fold (\<lambda>r m. AList.update (run_doc_id r) r m) docs runs_by_id"

definition load_runs :: "Database \<Rightarrow> (string \<times> RunDoc) list" where
  "load_runs db =
     (let runs_by_id = index_runs (run_docs db ''runs'') []
      in if runs_by_id = []
         then (case filter (\<lambda>name. lower name = ''runs'' \<or> lower name = ''run'')
                      (list_collection_names db) of
                 name # _ \<Rightarrow> index_runs (run_docs db name) runs_by_id
               | [] \<Rightarrow> runs_by_id)
         else runs_by_id)"

definition build_matched_feature_set :: "MatchedPairDoc list \<Rightarrow> (string \<times> string) set" where
  "build_matched_feature_set matched_pairs =
     fold (\<lambda>mp s.
             let a_id = get_str (mp_run_a_feature_id mp);
                 b_id = get_str (mp_run_b_feature_id mp)
             in insert (b_id, a_id) (insert (a_id, b_id) s))
          matched_pairs {}"

definition collect_feat_ids :: "MatchedPairDoc list \<Rightarrow> string option list" where
  "collect_feat_ids matched_pairs =
     removeAll None
       (fold (\<lambda>mp s. set_add (mp_run_b_feature_id mp) (set_add (mp_run_a_feature_id mp) s))
          matched_pairs [])"

definition collect_run_ids :: "MatchedPairDoc list \<Rightarrow> string option list" where
  "collect_run_ids matched_pairs =
     removeAll None
       (fold (\<lambda>mp s. set_add (mp_run_b_run_id mp) (set_add (mp_run_a_run_id mp) s))
          matched_pairs [])"

definition index_features ::
  "FeatureDoc list \<Rightarrow> (string \<times> FeatureDoc) list \<Rightarrow> (string \<times> FeatureDoc) list" where
  "index_features docs features_by_id =
     fold (\<lambda>f m. AList.update (feat_doc_id f) f m) docs features_by_id"

definition find_features_by_id :: "Database \<Rightarrow> string \<Rightarrow> string option list \<Rightarrow> FeatureDoc list" where
  \<comment> \<open>\<open>db[name].find({"_id": {"$in": ids}})\<close>\<close>
  "find_features_by_id db name ids =
     filter (\<lambda>f. Some (feat_doc_id f) \<in> set ids) (feature_docs db name)"

definition find_features_by_run :: "Database \<Rightarrow> string \<Rightarrow> string option list \<Rightarrow> FeatureDoc list" where
  \<comment> \<open>\<open>db[name].find({"run_id": {"$in": ids}})\<close>; a document without \<open>run_id\<close> does not match\<close>
  "find_features_by_run db name ids =
     filter (\<lambda>f. feat_run_id f \<noteq> None \<and> feat_run_id f \<in> set ids) (feature_docs db name)"

definition load_matched_features ::
  "'g Runtime \<Rightarrow> Database \<Rightarrow> MatchedPairDoc list \<Rightarrow> (string \<times> FeatureDoc) list" where
  "load_matched_features rt db matched_pairs =
     (let feat_ids = collect_feat_ids matched_pairs;
          features_by_id =
            index_features (find_features_by_id db ''features'' (set_iteration rt feat_ids)) []
      in if features_by_id = []
         then (case filter (\<lambda>name. lower name = ''features'' \<or> lower name = ''feature'')
                      (list_collection_names db) of
                 name # _ \<Rightarrow>
                   index_features (find_features_by_id db name (set_iteration rt feat_ids))
                     features_by_id
               | [] \<Rightarrow> features_by_id)
         else features_by_id)"

definition setdefault_append ::
  "string \<Rightarrow> FeatureDoc \<Rightarrow> (string \<times> FeatureDoc list) list \<Rightarrow> (string \<times> FeatureDoc list) list" where
  \<comment> \<open>\<open>d.setdefault(rid, []).append(f)\<close>\<close>
  "setdefault_append rid f d =
     AList.update rid (case map_of d rid of Some fs \<Rightarrow> fs @ [f] | None \<Rightarrow> [f]) d"

record Locals =
  matched_pairs :: "MatchedPairDoc list"
  runs_by_id :: "(string \<times> RunDoc) list"
  matched_feature_set :: "(string \<times> string) set"
  features_by_id :: "(string \<times> FeatureDoc) list"
  all_features_for_runs :: "(string \<times> FeatureDoc list) list"
  hard_neg_dist_ft :: real
  hard_neg_clock_hrs :: real

definition load_collections :: "'g Runtime \<Rightarrow> Database \<Rightarrow> BuildArgs \<Rightarrow> py_error + Locals" where
  "load_collections rt db args =
     (let matched_pairs = load_matched_pairs db
      in if matched_pairs = []
         then Inl (SystemExit ''[DATASET] ERROR: No matched pairs in any collection. Aborting.'' 1)
         else
           (let runs_by_id = load_runs db;
                matched_feature_set = build_matched_feature_set matched_pairs;
                features_by_id = load_matched_features rt db matched_pairs;
                run_ids_in_matches = collect_run_ids matched_pairs;
                run_features =
                  find_features_by_run db ''features'' (set_iteration rt run_ids_in_matches);
                features_by_id = index_features run_features features_by_id;
                all_features_for_runs =
                  fold (\<lambda>f d. setdefault_append (get_str (feat_run_id f)) f d) run_features []
            in Inr \<lparr>matched_pairs = matched_pairs,
                    runs_by_id = runs_by_id,
                    matched_feature_set = matched_feature_set,
                    features_by_id = features_by_id,
                    all_features_for_runs = all_features_for_runs,
                    hard_neg_dist_ft = arg_hard_neg_dist_ft args,
                    hard_neg_clock_hrs = arg_hard_neg_clock_hrs args\<rparr>))"

subsection \<open>Positive samples\<close>

record Metadata =
  feature_a :: string
  feature_b :: string
  job_id :: string
  det_score :: "real option"
  det_category :: "string option"
  label :: int
  neg_type :: "string option"

record Samples =
  X_rows :: "real list list"
  meta_rows :: "Metadata list"

definition append_sample :: "real list \<Rightarrow> Metadata \<Rightarrow> Samples \<Rightarrow> Samples" where
  "append_sample fv m s = \<lparr>X_rows = X_rows s @ [fv], meta_rows = meta_rows s @ [m]\<rparr>"

fun build_positives :: "Locals \<Rightarrow> MatchedPairDoc list \<Rightarrow> Samples \<Rightarrow> py_error + Samples" where
  "build_positives L [] pos = Inr pos"
| "build_positives L (mp # mps) pos =
     (let a_id = get_str (mp_run_a_feature_id mp);
          b_id = get_str (mp_run_b_feature_id mp)
      in case (map_of (features_by_id L) a_id, map_of (features_by_id L) b_id) of
           (Some a_doc, Some b_doc) \<Rightarrow>
             (let a_rec = feat_to_record a_doc;
                  b_rec = feat_to_record b_doc;
                  a_run = map_of (runs_by_id L) (get_str (mp_run_a_run_id mp));
                  b_run = map_of (runs_by_id L) (get_str (mp_run_b_run_id mp));
                  ctx = pair_context a_run b_run
              in bind_err (extract_features a_rec b_rec ctx) (\<lambda>fv.
                 build_positives L mps
                   (append_sample fv
                      \<lparr>feature_a = a_id, feature_b = b_id,
                       job_id = get_str (mp_job_id mp),
                       det_score =
                         Some (case mp_confidence_score mp of Some s \<Rightarrow> s | None \<Rightarrow> 0),
                       det_category =
                         Some (case mp_confidence_category mp of Some c \<Rightarrow> c | None \<Rightarrow> []),
                       label = 1, neg_type = None\<rparr>
                      pos)))
         | _ \<Rightarrow> build_positives L mps pos)"

subsection \<open>Negative samples\<close>

definition target_neg_of :: "nat \<Rightarrow> real \<Rightarrow> int" where
  "target_neg_of n_pos ratio = py_int (real n_pos * ratio)"

definition target_hard_of :: "int \<Rightarrow> int" where
  "target_hard_of target_neg = py_int (real_of_int target_neg * (6 / 10))"

definition target_easy_of :: "int \<Rightarrow> int" where
  "target_easy_of target_neg = target_neg - target_hard_of target_neg"

record NegState =
  negs :: Samples
  neg_pair_set :: "(string \<times> string) set"

definition add_negative ::
  "real list \<Rightarrow> string \<Rightarrow> string \<Rightarrow> string \<Rightarrow> string \<Rightarrow> NegState \<Rightarrow> NegState" where
  "add_negative fv a_id b_id job kind st =
     \<lparr>negs = append_sample fv
               \<lparr>feature_a = a_id, feature_b = b_id, job_id = job,
                det_score = None, det_category = None, label = 0, neg_type = Some kind\<rparr>
               (negs st),
      neg_pair_set = insert (a_id, b_id) (neg_pair_set st)\<rparr>"

definition n_neg :: "NegState \<Rightarrow> int" where
  "n_neg st = int (length (X_rows (negs st)))"

text \<open>One candidate of the inner hard-negative scan: every \<open>continue\<close> leaves the state as it is.\<close>

definition hard_candidate ::
  "Locals \<Rightarrow> MatchedPairDoc \<Rightarrow> string \<Rightarrow> AnomalyRecord \<Rightarrow> string \<Rightarrow> FeatureDoc \<Rightarrow> NegState
     \<Rightarrow> py_error + NegState" where
  "hard_candidate L mp b_id b_rec a_run_id a_doc st =
     (let a_id = feat_doc_id a_doc
      in if (a_id, b_id) \<in> matched_feature_set L then Inr st
         else if (a_id, b_id) \<in> neg_pair_set st then Inr st
         else if feat_is_reference_point a_doc then Inr st
         else
           (let a_rec = feat_to_record a_doc;
                dist_diff = \<bar>corrected_distance_ft a_rec - corrected_distance_ft b_rec\<bar>
            in if dist_diff > hard_neg_dist_ft L then Inr st
               else if (case (clock_position_hrs a_rec, clock_position_hrs b_rec) of
                          (Some ca, Some cb) \<Rightarrow>
                            (let clock_diff = \<bar>ca - cb\<bar>;
                                 clock_diff = (if clock_diff > 6 then 12 - clock_diff else clock_diff)
                             in clock_diff > hard_neg_clock_hrs L)
                        | _ \<Rightarrow> False)
               then Inr st
               else
                 (let a_run = map_of (runs_by_id L) a_run_id;
                      b_run = map_of (runs_by_id L) (get_str (mp_run_b_run_id mp));
                      ctx = pair_context a_run b_run
                  in bind_err (extract_features a_rec b_rec ctx) (\<lambda>fv.
                     Inr (add_negative fv a_id b_id (get_str (mp_job_id mp)) ''hard'' st)))))"

fun hard_inner ::
  "Locals \<Rightarrow> int \<Rightarrow> MatchedPairDoc \<Rightarrow> string \<Rightarrow> AnomalyRecord \<Rightarrow> string \<Rightarrow> FeatureDoc list
     \<Rightarrow> NegState \<Rightarrow> py_error + NegState" where
  "hard_inner L target_hard mp b_id b_rec a_run_id [] st = Inr st"
| "hard_inner L target_hard mp b_id b_rec a_run_id (a_doc # a_features) st =
     (if n_neg st \<ge> target_hard then Inr st
      else bind_err (hard_candidate L mp b_id b_rec a_run_id a_doc st) (\<lambda>st'.
           hard_inner L target_hard mp b_id b_rec a_run_id a_features st'))"

fun hard_negatives ::
  "Locals \<Rightarrow> int \<Rightarrow> MatchedPairDoc list \<Rightarrow> NegState \<Rightarrow> py_error + NegState" where
  "hard_negatives L target_hard [] st = Inr st"
| "hard_negatives L target_hard (mp # mps) st =
     (if n_neg st \<ge> target_hard then Inr st
      else
        (let b_id = get_str (mp_run_b_feature_id mp)
         in case map_of (features_by_id L) b_id of
              None \<Rightarrow> hard_negatives L target_hard mps st
            | Some b_doc \<Rightarrow>
                (let b_rec = feat_to_record b_doc;
                     a_run_id = get_str (mp_run_a_run_id mp);
                     a_features =
                       (case map_of (all_features_for_runs L) a_run_id of
                          Some fs \<Rightarrow> fs | None \<Rightarrow> [])
                 in bind_err (hard_inner L target_hard mp b_id b_rec a_run_id a_features st)
                      (\<lambda>st'. hard_negatives L target_hard mps st'))))"

text \<open>
  The decision of the easy-negative loop once both documents are drawn: every \<open>continue\<close>
  leaves the state as it is.
\<close>

definition easy_candidate ::
  "Locals \<Rightarrow> string \<Rightarrow> string \<Rightarrow> FeatureDoc \<Rightarrow> FeatureDoc \<Rightarrow> NegState \<Rightarrow> py_error + NegState" where
  "easy_candidate L r1 r2 a_doc b_doc st =
     (let a_id = feat_doc_id a_doc;
          b_id = feat_doc_id b_doc
      in if (a_id, b_id) \<in> matched_feature_set L then Inr st
         else if (a_id, b_id) \<in> neg_pair_set st then Inr st
         else
           (let a_rec = feat_to_record a_doc;
                b_rec = feat_to_record b_doc;
                dist_diff = \<bar>corrected_distance_ft a_rec - corrected_distance_ft b_rec\<bar>
            in if dist_diff < 50 then Inr st
               else
                 (let run_a = map_of (runs_by_id L) r1;
                      run_b = map_of (runs_by_id L) r2;
                      ctx = pair_context run_a run_b
                  in bind_err (extract_features a_rec b_rec ctx) (\<lambda>fv.
                     Inr (add_negative fv a_id b_id [] ''easy'' st)))))"

text \<open>
  One attempt of the easy-negative loop after the test for fewer than two runs: the draws
  advance the generator state, which is returned with the new state of the negatives.
\<close>

definition easy_attempt ::
  "'g Runtime \<Rightarrow> Locals \<Rightarrow> string list \<Rightarrow> 'g \<Rightarrow> NegState \<Rightarrow> py_error + ('g \<times> NegState)" where
  "easy_attempt rt L all_run_ids g st =
     (case random_sample2 rt g (length all_run_ids) of ((i1, i2), g1) \<Rightarrow>
      bind_err (list_getitem all_run_ids i1) (\<lambda>r1.
      bind_err (list_getitem all_run_ids i2) (\<lambda>r2.
      let feats_r1 = (case map_of (all_features_for_runs L) r1 of Some fs \<Rightarrow> fs | None \<Rightarrow> []);
          feats_r2 = (case map_of (all_features_for_runs L) r2 of Some fs \<Rightarrow> fs | None \<Rightarrow> [])
      in if feats_r1 = [] \<or> feats_r2 = [] then Inr (g1, st)
         else
           (case random_choice rt g1 (length feats_r1) of (ia, g2) \<Rightarrow>
            bind_err (list_getitem feats_r1 ia) (\<lambda>a_doc.
            case random_choice rt g2 (length feats_r2) of (ib, g3) \<Rightarrow>
            bind_err (list_getitem feats_r2 ib) (\<lambda>b_doc.
            bind_err (easy_candidate L r1 r2 a_doc b_doc st) (\<lambda>st'.
            Inr (g3, st'))))))))"

text \<open>
  The easy-negative loop. It returns the attempt counter with the negatives: the counter
  is incremented at the start of each iteration, before the test for fewer than two runs.
\<close>

function easy_negatives ::
  "'g Runtime \<Rightarrow> Locals \<Rightarrow> string list \<Rightarrow> int \<Rightarrow> int \<Rightarrow> int \<Rightarrow> 'g \<Rightarrow> NegState
     \<Rightarrow> py_error + (int \<times> NegState)" where
  "easy_negatives rt L all_run_ids target_total max_easy_attempts easy_attempts g st =
     (if n_neg st < target_total \<and> easy_attempts < max_easy_attempts
      then
        (if length all_run_ids < 2 then Inr (easy_attempts + 1, st)
         else bind_err (easy_attempt rt L all_run_ids g st) (\<lambda>(g', st').
              easy_negatives rt L all_run_ids target_total max_easy_attempts
                (easy_attempts + 1) g' st'))
      else Inr (easy_attempts, st))"
  by pat_completeness auto
termination
  by (relation "measure (\<lambda>(rt, L, all_run_ids, target_total, max_easy_attempts, easy_attempts, g, st).
                  nat (max_easy_attempts - easy_attempts))") auto

declare easy_negatives.simps [simp del]

subsection \<open>The build\<close>

text \<open>
  The local variables of the build once sampling is done: the positive and the negative
  samples, the run identifiers of the candidate pool and the attempt counter of the
  easy-negative loop.
\<close>

record Collected =
  positives :: Samples
  negatives :: Samples
  candidate_run_ids :: "string list"
  easy_attempts_made :: int

definition collect_samples :: "'g Runtime \<Rightarrow> Database \<Rightarrow> BuildArgs \<Rightarrow> py_error + Collected" where
  "collect_samples rt db args =
     (let g = random_seed rt (seed args)
      in bind_err (load_collections rt db args) (\<lambda>L.
         bind_err (build_positives L (matched_pairs L) \<lparr>X_rows = [], meta_rows = []\<rparr>) (\<lambda>pos.
         let n_pos = length (X_rows pos)
         in if n_pos = 0
            then Inl (SystemExit ''[DATASET] ERROR: No valid positive samples. Aborting.'' 1)
            else
              (let target_neg = target_neg_of n_pos (neg_pos_ratio args);
                   target_hard = target_hard_of target_neg;
                   target_easy = target_easy_of target_neg;
                   st = \<lparr>negs = \<lparr>X_rows = [], meta_rows = []\<rparr>, neg_pair_set = {}\<rparr>
               in bind_err (hard_negatives L target_hard (matched_pairs L) st) (\<lambda>st.
                  let all_run_ids = map fst (all_features_for_runs L);
                      max_easy_attempts = target_easy * 20
                  in bind_err (easy_negatives rt L all_run_ids (target_hard + target_easy)
                                 max_easy_attempts 0 g st) (\<lambda>(easy_attempts, st).
                     Inr \<lparr>positives = pos, negatives = negs st,
                          candidate_run_ids = all_run_ids,
                          easy_attempts_made = easy_attempts\<rparr>))))))"

record Dataset =
  ds_X :: "real list list"
  ds_y :: "int list"
  ds_metadata :: "Metadata list"

definition shuffle_samples :: "'g Runtime \<Rightarrow> BuildArgs \<Rightarrow> Collected \<Rightarrow> py_error + Dataset" where
  "shuffle_samples rt args c =
     (let X = X_rows (positives c) @ X_rows (negatives c);
          y = replicate (length (X_rows (positives c))) 1
              @ replicate (length (X_rows (negatives c))) 0;
          metadata = meta_rows (positives c) @ meta_rows (negatives c);
          indices = np_random_permutation rt (seed args) (length X)
      in bind_err (take_rows X indices) (\<lambda>X.
         bind_err (take_rows y indices) (\<lambda>y.
         bind_err (take_rows metadata indices) (\<lambda>metadata.
         Inr \<lparr>ds_X = X, ds_y = y, ds_metadata = metadata\<rparr>))))"

definition build_dataset :: "'g Runtime \<Rightarrow> Database \<Rightarrow> BuildArgs \<Rightarrow> py_error + Dataset" where
  "build_dataset rt db args =
     bind_err (collect_samples rt db args) (\<lambda>c. shuffle_samples rt args c)"

section \<open>Specification-side definitions and sample data\<close>

text \<open>
  The same-segment indicator as the specification words it: one chain of three cases,
  the distance fallback applying whenever the joint numbers are not both present and equal.
\<close>

definition same_segment_spec :: "AnomalyRecord \<Rightarrow> AnomalyRecord \<Rightarrow> real" where
  "same_segment_spec a b =
     (if joint_number a \<noteq> None \<and> joint_number b \<noteq> None \<and> joint_number a = joint_number b then 1
      else if \<bar>corrected_distance_ft a - corrected_distance_ft b\<bar> < 40 then 1
      else 0)"

text \<open>Concrete records and contexts on which the theorems below are instantiated.\<close>

definition sample_record :: "string \<Rightarrow> real \<Rightarrow> int option \<Rightarrow> AnomalyRecord" where
  "sample_record fid pos joint =
     \<lparr>feature_id = fid, run_id = ''R'', event_type = ''DENT'',
      corrected_distance_ft = pos, log_distance_ft = pos,
      clock_position_hrs = None, depth_percent = None, length_in = None, width_in = None,
      wall_thickness_in = None, joint_number = joint, dist_to_upstream_weld_ft = None\<rparr>"

definition sample_context :: "real option \<Rightarrow> PairContext" where
  "sample_context dtw =
     \<lparr>run_gap_years = 5, api_1163_tool_weight = 85 / 100,
      dtw_residual = dtw, icp_residual = None, anchor_density = None\<rparr>"

text \<open>
  The identifier pair of a sample, the matched identifier pairs as the matched-pair source
  holds them (one orientation per document), and the counts the source reports.
\<close>

definition pair_key :: "Metadata \<Rightarrow> string \<times> string" where
  "pair_key m = (feature_a m, feature_b m)"

definition matched_id_pairs :: "Database \<Rightarrow> (string \<times> string) set" where
  "matched_id_pairs db =
     (\<lambda>mp. (get_str (mp_run_a_feature_id mp), get_str (mp_run_b_feature_id mp)))
       ` set (load_matched_pairs db)"

definition is_negative :: "Metadata \<Rightarrow> bool" where
  "is_negative m \<longleftrightarrow> label m = 0 \<or> neg_type m = Some ''hard'' \<or> neg_type m = Some ''easy''"

definition n_hard :: "Collected \<Rightarrow> nat" where
  "n_hard c = length (filter (\<lambda>m. neg_type m = Some ''hard'') (meta_rows (negatives c)))"

definition n_easy :: "Collected \<Rightarrow> nat" where
  "n_easy c = length (filter (\<lambda>m. neg_type m = Some ''easy'') (meta_rows (negatives c)))"

text \<open>
  \<open>mined M kind st st'\<close>: the state \<open>st'\<close> comes from \<open>st\<close> by appending negatives of one
  kind, each with an identifier pair outside \<open>M\<close> and not selected before.
\<close>

inductive mined :: "(string \<times> string) set \<Rightarrow> string \<Rightarrow> NegState \<Rightarrow> NegState \<Rightarrow> bool"
  for M :: "(string \<times> string) set" and kind :: string
where
  mined_refl: "mined M kind st st"
| mined_add: "mined M kind st st' \<Longrightarrow> (a, b) \<notin> M \<Longrightarrow> (a, b) \<notin> neg_pair_set st' \<Longrightarrow>
     mined M kind st (add_negative fv a b job kind st')"

text \<open>
  The loop invariant of the dedup set: the identifier pairs of the negatives are pairwise
  distinct and all recorded in \<open>neg_pair_set\<close>.
\<close>

definition keys_tracked :: "NegState \<Rightarrow> bool" where
  "keys_tracked st \<longleftrightarrow>
     distinct (map pair_key (meta_rows (negs st)))
     \<and> pair_key ` set (meta_rows (negs st)) \<subseteq> neg_pair_set st"

text \<open>
  A matched pair is resolvable when both of its feature documents were loaded; the
  build has no resolvable pair when the collections load and no matched pair is resolvable.
\<close>

definition resolvable :: "Locals \<Rightarrow> MatchedPairDoc \<Rightarrow> bool" where
  "resolvable L mp \<longleftrightarrow>
     map_of (features_by_id L) (get_str (mp_run_a_feature_id mp)) \<noteq> None
     \<and> map_of (features_by_id L) (get_str (mp_run_b_feature_id mp)) \<noteq> None"

definition no_resolvable_pair :: "'g Runtime \<Rightarrow> Database \<Rightarrow> BuildArgs \<Rightarrow> bool" where
  "no_resolvable_pair rt db args =
     (case load_collections rt db args of
        Inr L \<Rightarrow> list_all (\<lambda>mp. \<not> resolvable L mp) (matched_pairs L)
      | Inl e \<Rightarrow> False)"

text \<open>
  The counts of a build: positives, hard negatives, easy negatives, easy attempts made and
  runs in the candidate pool (none if it aborts).
\<close>

definition build_counts :: "py_error + Collected \<Rightarrow> (nat \<times> nat \<times> nat \<times> int \<times> nat) option" where
  "build_counts r =
     (case r of
        Inr c \<Rightarrow>
          Some (length (X_rows (positives c)), n_hard c, n_easy c, easy_attempts_made c,
                length (candidate_run_ids c))
      | Inl e \<Rightarrow> None)"

text \<open>
  A small record store: runs R1 and R2, one matched pair (p, q), a near miss n of q in R1
  and two far-apart unmatched features a and b.
\<close>

definition sample_feature :: "string \<Rightarrow> string \<Rightarrow> real \<Rightarrow> FeatureDoc" where
  "sample_feature fid rid pos =
     \<lparr>feat_doc_id = fid, feat_run_id = Some rid,
      feat_event_type_canonical = Some ''METAL_LOSS'', feat_event_type_raw = None,
      feat_corrected_distance_ft = Some pos, feat_log_distance_ft = Some pos,
      feat_clock_decimal = None, feat_depth_percent = None, feat_length_in = None,
      feat_width_in = None, feat_wall_thickness_in = None, feat_joint_number = None,
      feat_dist_to_upstream_weld_ft = None, feat_is_reference_point = False\<rparr>"

definition sample_pair :: "string \<Rightarrow> string \<Rightarrow> MatchedPairDoc" where
  "sample_pair a b =
     \<lparr>mp_job_id = Some ''job'', mp_run_a_feature_id = Some a, mp_run_b_feature_id = Some b,
      mp_run_a_run_id = Some ''R1'', mp_run_b_run_id = Some ''R2'',
      mp_confidence_score = Some (9 / 10), mp_confidence_category = Some ''HIGH''\<rparr>"

definition sample_runs :: "RunDoc list" where
  "sample_runs =
     [\<lparr>run_doc_id = ''R1'', run_year = Some 2015, run_tool_qualification = None\<rparr>,
      \<lparr>run_doc_id = ''R2'', run_year = Some 2020,
       run_tool_qualification = Some (TQ_dict (Some (9 / 10)))\<rparr>]"

definition sample_store :: "MatchedPairDoc list \<Rightarrow> FeatureDoc list \<Rightarrow> Database" where
  "sample_store pairs feats =
     \<lparr>list_collection_names = [''matchedpairs'', ''runs'', ''features''],
      matched_pair_docs = (\<lambda>name. if name = ''matchedpairs'' then pairs else []),
      run_docs = (\<lambda>name. if name = ''runs'' then sample_runs else []),
      feature_docs = (\<lambda>name. if name = ''features'' then feats else [])\<rparr>"

definition small_store :: Database where
  "small_store =
     sample_store [sample_pair ''p'' ''q'']
       [sample_feature ''a'' ''R1'' 0, sample_feature ''p'' ''R1'' 500,
        sample_feature ''n'' ''R1'' 510,
        sample_feature ''b'' ''R2'' 100, sample_feature ''q'' ''R2'' 500]"

text \<open>
  A runtime for the instances: the generator state counts the draws; \<open>sample\<close> alternates
  between the two orders of the first two runs, \<open>choice\<close> takes the first element, and the
  permutation reverses the rows.
\<close>

definition sample_runtime :: "nat Runtime" where
  "sample_runtime =
     \<lparr>set_iteration = (\<lambda>xs. xs),
      random_seed = (\<lambda>s. 0),
      random_sample2 = (\<lambda>g n. ((if even (g div 3) then (0, 1) else (1, 0)), g + 1)),
      random_choice = (\<lambda>g n. (0, g + 1)),
      np_random_permutation = (\<lambda>s n. rev [0..<n])\<rparr>"

definition default_args :: BuildArgs where
  "default_args =
     \<lparr>neg_pos_ratio = 3, arg_hard_neg_dist_ft = 30, arg_hard_neg_clock_hrs = 2, seed = 42\<rparr>"

text \<open>The dataset that the build returns on the small store with this runtime.\<close>

definition sample_negative :: "string \<Rightarrow> string \<Rightarrow> string \<Rightarrow> string \<Rightarrow> Metadata" where
  "sample_negative a b job kind =
     \<lparr>feature_a = a, feature_b = b, job_id = job, det_score = None, det_category = None,
      label = 0, neg_type = Some kind\<rparr>"

definition small_dataset :: Dataset where
  "small_dataset =
     \<lparr>ds_X =
        [[100, - 1, 0, - 1, - 1, - 1, - 1, 1, 5, 85 / 100, - 1, - 1, - 1],
         [100, - 1, 0, - 1, - 1, - 1, - 1, 1, 5, 9 / 10, - 1, - 1, - 1],
         [10, - 1, 1, - 1, - 1, - 1, - 1, 1, 5, 9 / 10, - 1, - 1, - 1],
         [0, - 1, 1, - 1, - 1, - 1, - 1, 1, 5, 9 / 10, - 1, - 1, - 1]],
      ds_y = [0, 0, 0, 1],
      ds_metadata =
        [sample_negative ''b'' ''a'' [] ''easy'',
         sample_negative ''a'' ''b'' [] ''easy'',
         sample_negative ''n'' ''q'' ''job'' ''hard'',
         \<lparr>feature_a = ''p'', feature_b = ''q'', job_id = ''job'',
          det_score = Some (9 / 10), det_category = Some ''HIGH'',
          label = 1, neg_type = None\<rparr>]\<rparr>"

text \<open>
  A store with ten matched pairs (a0, b0), ..., (a9, b9): the ten older features in run R1,
  the ten newer ones in run R2, each pair at its own position, 100 apart from the next.
  No feature of R1 is a near miss of an unmatched feature of R2.
\<close>

definition ten_store :: Database where
  "ten_store =
     sample_store
       [sample_pair ''a0'' ''b0'', sample_pair ''a1'' ''b1'', sample_pair ''a2'' ''b2'',
        sample_pair ''a3'' ''b3'', sample_pair ''a4'' ''b4'', sample_pair ''a5'' ''b5'',
        sample_pair ''a6'' ''b6'', sample_pair ''a7'' ''b7'', sample_pair ''a8'' ''b8'',
        sample_pair ''a9'' ''b9'']
       [sample_feature ''a0'' ''R1'' 100, sample_feature ''a1'' ''R1'' 200,
        sample_feature ''a2'' ''R1'' 300, sample_feature ''a3'' ''R1'' 400,
        sample_feature ''a4'' ''R1'' 500, sample_feature ''a5'' ''R1'' 600,
        sample_feature ''a6'' ''R1'' 700, sample_feature ''a7'' ''R1'' 800,
        sample_feature ''a8'' ''R1'' 900, sample_feature ''a9'' ''R1'' 1000,
        sample_feature ''b0'' ''R2'' 100, sample_feature ''b1'' ''R2'' 200,
        sample_feature ''b2'' ''R2'' 300, sample_feature ''b3'' ''R2'' 400,
        sample_feature ''b4'' ''R2'' 500, sample_feature ''b5'' ''R2'' 600,
        sample_feature ''b6'' ''R2'' 700, sample_feature ''b7'' ''R2'' 800,
        sample_feature ''b8'' ''R2'' 900, sample_feature ''b9'' ''R2'' 1000]"

text \<open>
  A runtime whose draws walk through unmatched pairs: attempt \<open>k\<close> draws the runs in the
  order (R1, R2), the feature \<open>k mod 10\<close> of R1 and the feature of R2 that lies
  \<open>1 + k div 10\<close> places further on.
\<close>

definition walking_runtime :: "nat Runtime" where
  "walking_runtime =
     \<lparr>set_iteration = (\<lambda>xs. xs),
      random_seed = (\<lambda>s. 0),
      random_sample2 = (\<lambda>g n. ((0, 1), g + 1)),
      random_choice =
        (\<lambda>g n. ((if g mod 3 = 1 then (g div 3) mod 10
                  else ((g div 3) mod 10 + 1 + (g div 3) div 10) mod 10), g + 1)),
      np_random_permutation = (\<lambda>s n. rev [0..<n])\<rparr>"

text \<open>
  The same ten matched pairs, their documents naming only the older run: features are then
  loaded for run R1 alone, so the candidate pool holds a single run.
\<close>

definition one_run_store :: Database where
  "one_run_store =
     ten_store\<lparr>matched_pair_docs :=
       (\<lambda>name. map (\<lambda>mp. mp\<lparr>mp_run_b_run_id := None\<rparr>) (matched_pair_docs ten_store name))\<rparr>"

text \<open>A store whose matched pairs live in a collection named with another casing.\<close>

definition renamed_store :: Database where
  "renamed_store =
     \<lparr>list_collection_names = [''runs'', ''MatchedPairs'', ''features''],
      matched_pair_docs = (\<lambda>name. if name = ''MatchedPairs'' then [sample_pair ''p'' ''q''] else []),
      run_docs = (\<lambda>name. if name = ''runs'' then sample_runs else []),
      feature_docs = (\<lambda>name. [])\<rparr>"

text \<open>
  The local variables and the positive samples of the build on the store of ten matched
  pairs, named so that its phases can be evaluated one by one (the alternatives for an
  aborted phase are never taken), and the state without negatives.
\<close>

definition ten_locals :: Locals where
  "ten_locals =
     (case load_collections sample_runtime ten_store default_args of
        Inr L \<Rightarrow> L
      | Inl e \<Rightarrow> \<lparr>matched_pairs = [], runs_by_id = [], matched_feature_set = {},
                   features_by_id = [], all_features_for_runs = [],
                   hard_neg_dist_ft = 0, hard_neg_clock_hrs = 0\<rparr>)"

definition ten_positives :: Samples where
  "ten_positives =
     (case build_positives ten_locals (matched_pairs ten_locals) \<lparr>X_rows = [], meta_rows = []\<rparr> of
        Inr pos \<Rightarrow> pos
      | Inl e \<Rightarrow> \<lparr>X_rows = [], meta_rows = []\<rparr>)"

definition no_negatives :: NegState where
  "no_negatives = \<lparr>negs = \<lparr>X_rows = [], meta_rows = []\<rparr>, neg_pair_set = {}\<rparr>"

section \<open>Properties of the feature extractor\<close>

lemma bind_err_Inr [simp]: "bind_err (Inr v) f = f v"
  by (simp add: bind_err_def)

lemma bind_err_Inl [simp]: "bind_err (Inl e) f = Inl e"
  by (simp add: bind_err_def)

lemma NUM_FEATURES_13: "NUM_FEATURES = 13"
  by (simp add: NUM_FEATURES_def FEATURE_NAMES_def)

lemma np_full_13: "np_full NUM_FEATURES v = [v, v, v, v, v, v, v, v, v, v, v, v, v]"
  by (simp add: np_full_def NUM_FEATURES_13 eval_nat_numeral)

text \<open>The thirteen writes are all in range, so the vector is returned in schema order.\<close>

lemma extract_features_vector:
  "extract_features older newer ctx =
     Inr [\<bar>corrected_distance_ft older - corrected_distance_ft newer\<bar>,
          clock_delta_wrap_aware (clock_position_hrs older) (clock_position_hrs newer),
          same_weld_segment older newer,
          safe_abs_delta (depth_percent older) (depth_percent newer) (- 1),
          safe_abs_delta (length_in older) (length_in newer) (- 1),
          safe_abs_delta (width_in older) (width_in newer) (- 1),
          safe_abs_delta (wall_thickness_in older) (wall_thickness_in newer) (- 1),
          type_compat_score (event_type older) (event_type newer),
          run_gap_years ctx,
          api_1163_tool_weight ctx,
          (case dtw_residual ctx of Some r \<Rightarrow> r | None \<Rightarrow> - 1),
          (case icp_residual ctx of Some r \<Rightarrow> r | None \<Rightarrow> - 1),
          (case anchor_density ctx of Some r \<Rightarrow> r | None \<Rightarrow> - 1)]"
  by (simp add: extract_features_def np_full_13 np_setitem_def eval_nat_numeral)

lemma distinct_TYPE_COMPAT: "distinct (map fst TYPE_COMPAT)"
  by (simp add: TYPE_COMPAT_def)

lemma TYPE_COMPAT_swap_all:
  "\<forall>e \<in> set TYPE_COMPAT. ((snd (fst e), fst (fst e)), snd e) \<in> set TYPE_COMPAT"
  by (simp add: TYPE_COMPAT_def)

lemma TYPE_COMPAT_swap:
  "((t1, t2), s) \<in> set TYPE_COMPAT \<Longrightarrow> ((t2, t1), s) \<in> set TYPE_COMPAT"
  using TYPE_COMPAT_swap_all by fastforce

lemma map_of_TYPE_COMPAT_swap: "map_of TYPE_COMPAT (t1, t2) = map_of TYPE_COMPAT (t2, t1)"
proof (cases "map_of TYPE_COMPAT (t1, t2)")
  case None
  then have "(t1, t2) \<notin> fst ` set TYPE_COMPAT" by (simp add: map_of_eq_None_iff)
  then have "(t2, t1) \<notin> fst ` set TYPE_COMPAT"
    using TYPE_COMPAT_swap by force
  then have "map_of TYPE_COMPAT (t2, t1) = None" by (simp add: map_of_eq_None_iff)
  with None show ?thesis by simp
next
  case (Some s)
  then have "((t1, t2), s) \<in> set TYPE_COMPAT" by (rule map_of_SomeD)
  then have "((t2, t1), s) \<in> set TYPE_COMPAT" by (rule TYPE_COMPAT_swap)
  then have "map_of TYPE_COMPAT (t2, t1) = Some s"
    using distinct_TYPE_COMPAT by simp
  with Some show ?thesis by simp
qed

lemma TYPE_COMPAT_values: "(k, s) \<in> set TYPE_COMPAT \<Longrightarrow> 0 < s \<and> s \<le> 1"
  unfolding TYPE_COMPAT_def by auto

lemma type_compat_score_range: "0 \<le> type_compat_score t1 t2 \<and> type_compat_score t1 t2 \<le> 1"
  by (auto simp: type_compat_score_def split: option.splits dest!: map_of_SomeD TYPE_COMPAT_values)

text \<open>
  Claim C7. The type-compatibility score is symmetric in its two event types, identical
  types score 1.0, and two different types whose pair is not a key of the table score 0.0.
\<close>

theorem type_compat_symmetric:
  "type_compat_score t1 t2 = type_compat_score t2 t1
   \<and> type_compat_score t1 t1 = 1
   \<and> (t1 \<noteq> t2 \<and> (t1, t2) \<notin> fst ` set TYPE_COMPAT \<longrightarrow> type_compat_score t1 t2 = 0)"
proof -
  have "map_of TYPE_COMPAT (t1, t2) = None" if "(t1, t2) \<notin> fst ` set TYPE_COMPAT"
    using that by (simp add: map_of_eq_None_iff)
  moreover have "type_compat_score t1 t2 = type_compat_score t2 t1"
    unfolding type_compat_score_def
    using map_of_TYPE_COMPAT_swap [of t1 t2] by auto
  ultimately show ?thesis
    by (simp add: type_compat_score_def)
qed

text \<open>
  The theorem at the unrelated types DENT and CRACK.
\<close>

theorem type_compat_symmetric_witness:
  "type_compat_score ''DENT'' ''CRACK'' = type_compat_score ''CRACK'' ''DENT''
   \<and> type_compat_score ''DENT'' ''DENT'' = 1
   \<and> ''DENT'' \<noteq> ''CRACK'' \<and> (''DENT'', ''CRACK'') \<notin> fst ` set TYPE_COMPAT
   \<and> type_compat_score ''DENT'' ''CRACK'' = 0"
  using type_compat_symmetric [of "''DENT''" "''CRACK''"]
  by (simp add: TYPE_COMPAT_def)

text \<open>
  Claim C5. For clock positions a and b in [0,12) the wrap-aware clock difference lies in
  [0,6] and is the shorter of the two arcs between them on the 12-hour dial; when either
  clock position is absent the result is the sentinel -1.0.
\<close>

theorem clock_delta_range:
  "(0 \<le> a \<and> a < 12 \<and> 0 \<le> b \<and> b < 12 \<longrightarrow>
      0 \<le> clock_delta_wrap_aware (Some a) (Some b)
      \<and> clock_delta_wrap_aware (Some a) (Some b) \<le> 6
      \<and> clock_delta_wrap_aware (Some a) (Some b) = min \<bar>a - b\<bar> (12 - \<bar>a - b\<bar>))
   \<and> clock_delta_wrap_aware None y = - 1
   \<and> clock_delta_wrap_aware x None = - 1"
  by (auto simp: clock_delta_wrap_aware_def Let_def split: option.splits)

text \<open>
  The theorem at 11 o'clock and 1 o'clock: the shorter arc is 2 hours.
\<close>

theorem clock_delta_range_witness:
  "(0::real) \<le> 11 \<and> (11::real) < 12 \<and> (0::real) \<le> 1 \<and> (1::real) < 12
   \<and> 0 \<le> clock_delta_wrap_aware (Some 11) (Some 1)
   \<and> clock_delta_wrap_aware (Some 11) (Some 1) \<le> 6
   \<and> clock_delta_wrap_aware (Some 11) (Some 1) = 2"
  using clock_delta_range [of 11 1]
  by simp

text \<open>
  Claim C3, as stated, fails: two records at the same position whose joint numbers are both
  present and different get 0.0 from the code, where the three-case chain of the
  specification falls back to the distance test and gives 1.0.
\<close>

theorem same_weld_segment_counterexample:
  "same_weld_segment (sample_record ''a'' 0 (Some 1)) (sample_record ''b'' 0 (Some 2)) = 0
   \<and> same_segment_spec (sample_record ''a'' 0 (Some 1)) (sample_record ''b'' 0 (Some 2)) = 1"
  by (simp add: same_weld_segment_def same_segment_spec_def sample_record_def)

text \<open>
  Claim C3, amended. When both joint numbers are present the indicator is 1.0 if they are
  equal and 0.0 if they differ (no distance fallback); when at least one joint number is
  absent it is 1.0 if the absolute longitudinal-position difference is below 40 and 0.0
  otherwise. It is always 0.0 or 1.0 and never the sentinel -1.0.
\<close>

theorem same_weld_segment_cases:
  "(joint_number a = Some ja \<and> joint_number b = Some jb \<longrightarrow>
      same_weld_segment a b = (if ja = jb then 1 else 0))
   \<and> (joint_number a = None \<or> joint_number b = None \<longrightarrow>
      same_weld_segment a b =
        (if \<bar>corrected_distance_ft a - corrected_distance_ft b\<bar> < 40 then 1 else 0))
   \<and> (same_weld_segment a b = 0 \<or> same_weld_segment a b = 1)
   \<and> same_weld_segment a b \<noteq> - 1"
  by (auto simp: same_weld_segment_def Let_def split: option.splits)

text \<open>
  The theorem at a pair with different joint numbers and at a pair with a missing one.
\<close>

theorem same_weld_segment_cases_witness:
  "joint_number (sample_record ''a'' 0 (Some 1)) = Some 1
   \<and> joint_number (sample_record ''b'' 0 (Some 2)) = Some 2
   \<and> same_weld_segment (sample_record ''a'' 0 (Some 1)) (sample_record ''b'' 0 (Some 2)) = 0
   \<and> joint_number (sample_record ''c'' 39 None) = None
   \<and> same_weld_segment (sample_record ''c'' 39 None) (sample_record ''b'' 0 (Some 2)) = 1"
  using same_weld_segment_cases [of "sample_record ''a'' 0 (Some 1)" 1 "sample_record ''b'' 0 (Some 2)" 2]
    same_weld_segment_cases [of "sample_record ''c'' 39 None" 0 "sample_record ''b'' 0 (Some 2)" 0]
  by (simp add: sample_record_def)


lemma clock_delta_sentinel_iff:
  "clock_delta_wrap_aware a b = - 1 \<longleftrightarrow>
     (case (a, b) of (Some x, Some y) \<Rightarrow> \<bar>x - y\<bar> = 13 | _ \<Rightarrow> True)"
  by (auto simp: clock_delta_wrap_aware_def Let_def split: option.splits)

lemma safe_abs_delta_sentinel_iff:
  "safe_abs_delta a b (- 1) = - 1 \<longleftrightarrow> a = None \<or> b = None"
  by (auto simp: safe_abs_delta_def split: option.splits)

lemma same_weld_segment_values: "same_weld_segment a b = 0 \<or> same_weld_segment a b = 1"
  by (auto simp: same_weld_segment_def Let_def split: option.splits)

text \<open>
  Claim C4, as stated, fails: with a DTW residual that is present and equal to -1.0, slot 10
  holds the sentinel although its optional input is not absent.
\<close>

theorem extract_features_sentinel_counterexample:
  "extract_features (sample_record ''a'' 0 None) (sample_record ''b'' 10 None)
       (sample_context (Some (- 1)))
     = Inr [10, - 1, 1, - 1, - 1, - 1, - 1, 1, 5, 85 / 100, - 1, - 1, - 1]
   \<and> [10, - 1, 1, - 1, - 1, - 1, - 1, 1, 5, 85 / 100, - 1, - 1, - 1] ! 10 = (- 1 :: real)
   \<and> dtw_residual (sample_context (Some (- 1))) \<noteq> None"
  by (simp add: extract_features_vector sample_record_def sample_context_def
      clock_delta_wrap_aware_def same_weld_segment_def safe_abs_delta_def type_compat_score_def)

text \<open>
  Claim C4, amended. \<open>extract_features\<close> returns a vector of exactly 13 elements. Each of
  the four geometry slots is the sentinel -1.0 exactly when one of its two inputs is absent.
  The clock slot is the sentinel exactly when a clock position is absent or the two clock
  positions differ by exactly 13 hours (which cannot happen on the 0-12 dial). Each alignment
  slot is the sentinel exactly when its signal is absent or is itself -1.0. The same-segment
  slot and the type-compatibility slot are never the sentinel.
\<close>

theorem extract_features_contract:
  "\<exists>v. extract_features older newer ctx = Inr v \<and> length v = 13
     \<and> (v ! 1 = - 1 \<longleftrightarrow>
          (case (clock_position_hrs older, clock_position_hrs newer) of
             (Some x, Some y) \<Rightarrow> \<bar>x - y\<bar> = 13 | _ \<Rightarrow> True))
     \<and> (v ! 3 = - 1 \<longleftrightarrow> depth_percent older = None \<or> depth_percent newer = None)
     \<and> (v ! 4 = - 1 \<longleftrightarrow> length_in older = None \<or> length_in newer = None)
     \<and> (v ! 5 = - 1 \<longleftrightarrow> width_in older = None \<or> width_in newer = None)
     \<and> (v ! 6 = - 1 \<longleftrightarrow> wall_thickness_in older = None \<or> wall_thickness_in newer = None)
     \<and> (v ! 10 = - 1 \<longleftrightarrow> dtw_residual ctx = None \<or> dtw_residual ctx = Some (- 1))
     \<and> (v ! 11 = - 1 \<longleftrightarrow> icp_residual ctx = None \<or> icp_residual ctx = Some (- 1))
     \<and> (v ! 12 = - 1 \<longleftrightarrow> anchor_density ctx = None \<or> anchor_density ctx = Some (- 1))
     \<and> v ! 2 \<noteq> - 1 \<and> v ! 7 \<noteq> - 1"
proof -
  have seg: "same_weld_segment older newer \<noteq> - 1"
    using same_weld_segment_values [of older newer] by auto
  have ty: "type_compat_score (event_type older) (event_type newer) \<noteq> - 1"
    using type_compat_score_range [of "event_type older" "event_type newer"] by auto
  have opt: "(case r of Some x \<Rightarrow> x | None \<Rightarrow> - 1) = (- 1 :: real) \<longleftrightarrow> r = None \<or> r = Some (- 1)"
    for r :: "real option"
    by (cases r) auto
  show ?thesis
    unfolding extract_features_vector
    by (simp add: clock_delta_sentinel_iff safe_abs_delta_sentinel_iff seg ty opt)
qed

text \<open>
  The theorem at a pair of records without clocks or geometry and a context with one residual.
\<close>

theorem extract_features_contract_witness:
  "\<exists>v. extract_features (sample_record ''a'' 0 None) (sample_record ''b'' 10 None)
          (sample_context (Some 2)) = Inr v
     \<and> length v = 13 \<and> v ! 1 = - 1 \<and> v ! 3 = - 1 \<and> v ! 10 \<noteq> - 1 \<and> v ! 11 = - 1
     \<and> v ! 2 \<noteq> - 1 \<and> v ! 7 \<noteq> - 1"
  using extract_features_contract [of "sample_record ''a'' 0 None" "sample_record ''b'' 10 None"
      "sample_context (Some 2)"]
  by (auto simp: sample_record_def sample_context_def)

text \<open>
  Claim C6. \<open>extract_features\<close> is total: for every pair of records and every context all
  thirteen array writes are in range, so it returns a vector and never an error, and every
  missing optional input yields the sentinel -1.0 in the corresponding slot.
\<close>

theorem extract_features_total:
  "\<exists>v. extract_features older newer ctx = Inr v
     \<and> (clock_position_hrs older = None \<or> clock_position_hrs newer = None \<longrightarrow> v ! 1 = - 1)
     \<and> (depth_percent older = None \<or> depth_percent newer = None \<longrightarrow> v ! 3 = - 1)
     \<and> (length_in older = None \<or> length_in newer = None \<longrightarrow> v ! 4 = - 1)
     \<and> (width_in older = None \<or> width_in newer = None \<longrightarrow> v ! 5 = - 1)
     \<and> (wall_thickness_in older = None \<or> wall_thickness_in newer = None \<longrightarrow> v ! 6 = - 1)
     \<and> (dtw_residual ctx = None \<longrightarrow> v ! 10 = - 1)
     \<and> (icp_residual ctx = None \<longrightarrow> v ! 11 = - 1)
     \<and> (anchor_density ctx = None \<longrightarrow> v ! 12 = - 1)"
  unfolding extract_features_vector
  by (auto simp: clock_delta_wrap_aware_def safe_abs_delta_def split: option.splits)

text \<open>
  The theorem at records and a context with every optional input absent.
\<close>

theorem extract_features_total_witness:
  "\<exists>v. extract_features (sample_record ''a'' 0 None) (sample_record ''b'' 10 None)
          (sample_context None) = Inr v
     \<and> clock_position_hrs (sample_record ''a'' 0 None) = None \<and> v ! 1 = - 1
     \<and> depth_percent (sample_record ''a'' 0 None) = None \<and> v ! 3 = - 1
     \<and> length_in (sample_record ''a'' 0 None) = None \<and> v ! 4 = - 1
     \<and> width_in (sample_record ''a'' 0 None) = None \<and> v ! 5 = - 1
     \<and> wall_thickness_in (sample_record ''a'' 0 None) = None \<and> v ! 6 = - 1
     \<and> dtw_residual (sample_context None) = None \<and> v ! 10 = - 1
     \<and> icp_residual (sample_context None) = None \<and> v ! 11 = - 1
     \<and> anchor_density (sample_context None) = None \<and> v ! 12 = - 1"
  using extract_features_total [of "sample_record ''a'' 0 None" "sample_record ''b'' 10 None"
      "sample_context None"]
  by (auto simp: sample_record_def sample_context_def)

section \<open>Properties of the dataset build\<close>

subsection \<open>Error results\<close>

lemma bind_err_eq_Inr: "bind_err m f = Inr y \<longleftrightarrow> (\<exists>x. m = Inr x \<and> f x = Inr y)"
  by (cases m) simp_all

lemma list_getitem_Inr: "list_getitem xs i = Inr x \<Longrightarrow> i < length xs \<and> x = xs ! i"
  by (auto simp: list_getitem_def split: if_splits)

lemma take_rows_Inr:
  "take_rows xs is = Inr ys \<Longrightarrow> ys = map (\<lambda>i. xs ! i) is \<and> (\<forall>i \<in> set is. i < length xs)"
proof (induction "is" arbitrary: ys)
  case Nil
  then show ?case by simp
next
  case (Cons i "is")
  then show ?case
    by (auto simp: bind_err_eq_Inr dest!: list_getitem_Inr)
qed

subsection \<open>Mining steps\<close>

lemma mined_trans: "mined M kind st1 st2 \<Longrightarrow> mined M kind st0 st1 \<Longrightarrow> mined M kind st0 st2"
  by (induction rule: mined.induct) (auto intro: mined.intros)

lemma mined_single:
  "(a, b) \<notin> M \<Longrightarrow> (a, b) \<notin> neg_pair_set st \<Longrightarrow> mined M kind st (add_negative fv a b job kind st)"
  by (rule mined_add [OF mined_refl])

lemma hard_candidate_mined:
  assumes "hard_candidate L mp b_id b_rec a_run_id a_doc st = Inr st'"
  shows "mined (matched_feature_set L) ''hard'' st st'"
  using assms
  by (auto simp: hard_candidate_def Let_def bind_err_eq_Inr
      split: if_splits intro: mined_refl mined_single)

lemma hard_candidate_count:
  assumes "hard_candidate L mp b_id b_rec a_run_id a_doc st = Inr st'"
  shows "n_neg st' \<le> n_neg st + 1"
  using assms
  by (auto simp: hard_candidate_def Let_def bind_err_eq_Inr n_neg_def add_negative_def
      append_sample_def split: if_splits)

lemma hard_inner_mined:
  "hard_inner L t mp b_id b_rec a_run_id a_features st = Inr st' \<Longrightarrow>
     mined (matched_feature_set L) ''hard'' st st'"
proof (induction a_features arbitrary: st)
  case Nil
  then show ?case by (simp add: mined_refl)
next
  case (Cons a_doc a_features)
  show ?case
  proof (cases "n_neg st \<ge> t")
    case True
    with Cons.prems show ?thesis by (simp add: mined_refl)
  next
    case False
    with Cons.prems obtain st1 where
      c: "hard_candidate L mp b_id b_rec a_run_id a_doc st = Inr st1" and
      r: "hard_inner L t mp b_id b_rec a_run_id a_features st1 = Inr st'"
      by (auto simp: bind_err_eq_Inr)
    from Cons.IH [OF r] hard_candidate_mined [OF c] show ?thesis
      by (rule mined_trans)
  qed
qed

lemma hard_inner_count:
  "hard_inner L t mp b_id b_rec a_run_id a_features st = Inr st' \<Longrightarrow>
     n_neg st' \<le> max (n_neg st) t"
proof (induction a_features arbitrary: st)
  case Nil
  then show ?case by simp
next
  case (Cons a_doc a_features)
  show ?case
  proof (cases "n_neg st \<ge> t")
    case True
    with Cons.prems show ?thesis by simp
  next
    case False
    with Cons.prems obtain st1 where
      c: "hard_candidate L mp b_id b_rec a_run_id a_doc st = Inr st1" and
      r: "hard_inner L t mp b_id b_rec a_run_id a_features st1 = Inr st'"
      by (auto simp: bind_err_eq_Inr)
    from Cons.IH [OF r] hard_candidate_count [OF c] False show ?thesis
      by linarith
  qed
qed

lemma hard_negatives_mined:
  "hard_negatives L t mps st = Inr st' \<Longrightarrow> mined (matched_feature_set L) ''hard'' st st'"
proof (induction mps arbitrary: st)
  case Nil
  then show ?case by (simp add: mined_refl)
next
  case (Cons mp mps)
  show ?case
  proof (cases "n_neg st \<ge> t")
    case True
    with Cons.prems show ?thesis by (simp add: mined_refl)
  next
    case False
    show ?thesis
    proof (cases "map_of (features_by_id L) (get_str (mp_run_b_feature_id mp))")
      case None
      with False Cons.prems Cons.IH show ?thesis by simp
    next
      case (Some b_doc)
      with False Cons.prems obtain st1 a_features where
        c: "hard_inner L t mp (get_str (mp_run_b_feature_id mp)) (feat_to_record b_doc)
              (get_str (mp_run_a_run_id mp)) a_features st = Inr st1" and
        r: "hard_negatives L t mps st1 = Inr st'"
        by (auto simp: bind_err_eq_Inr Let_def)
      from Cons.IH [OF r] hard_inner_mined [OF c] show ?thesis
        by (rule mined_trans)
    qed
  qed
qed

lemma hard_negatives_count:
  "hard_negatives L t mps st = Inr st' \<Longrightarrow> n_neg st' \<le> max (n_neg st) t"
proof (induction mps arbitrary: st)
  case Nil
  then show ?case by simp
next
  case (Cons mp mps)
  show ?case
  proof (cases "n_neg st \<ge> t")
    case True
    with Cons.prems show ?thesis by simp
  next
    case False
    show ?thesis
    proof (cases "map_of (features_by_id L) (get_str (mp_run_b_feature_id mp))")
      case None
      with False Cons.prems have "hard_negatives L t mps st = Inr st'" by simp
      from Cons.IH [OF this] show ?thesis .
    next
      case (Some b_doc)
      with False Cons.prems obtain st1 a_features where
        c: "hard_inner L t mp (get_str (mp_run_b_feature_id mp)) (feat_to_record b_doc)
              (get_str (mp_run_a_run_id mp)) a_features st = Inr st1" and
        r: "hard_negatives L t mps st1 = Inr st'"
        by (auto simp: bind_err_eq_Inr Let_def)
      from Cons.IH [OF r] hard_inner_count [OF c] False show ?thesis
        by linarith
    qed
  qed
qed

lemma easy_candidate_mined:
  assumes "easy_candidate L r1 r2 a_doc b_doc st = Inr st'"
  shows "mined (matched_feature_set L) ''easy'' st st'"
  using assms
  by (auto simp: easy_candidate_def Let_def bind_err_eq_Inr
      split: if_splits intro: mined_refl mined_single)

lemma easy_candidate_count:
  assumes "easy_candidate L r1 r2 a_doc b_doc st = Inr st'"
  shows "n_neg st' \<le> n_neg st + 1"
  using assms
  by (auto simp: easy_candidate_def Let_def bind_err_eq_Inr n_neg_def add_negative_def
      append_sample_def split: if_splits)

lemma easy_attempt_cases:
  assumes "easy_attempt rt L all_run_ids g st = Inr (g', st')"
  shows "st' = st \<or> (\<exists>r1 r2 a_doc b_doc. easy_candidate L r1 r2 a_doc b_doc st = Inr st')"
  using assms
  by (auto simp: easy_attempt_def Let_def bind_err_eq_Inr case_prod_beta split: if_splits)

lemma easy_attempt_mined:
  assumes "easy_attempt rt L all_run_ids g st = Inr (g', st')"
  shows "mined (matched_feature_set L) ''easy'' st st'"
  using easy_attempt_cases [OF assms] by (auto intro: mined_refl easy_candidate_mined)

lemma easy_attempt_count:
  assumes "easy_attempt rt L all_run_ids g st = Inr (g', st')"
  shows "n_neg st' \<le> n_neg st + 1"
  using easy_attempt_cases [OF assms] by (auto dest: easy_candidate_count)

lemma easy_negatives_mined:
  "easy_negatives rt L all_run_ids t mx k g st = Inr (k', st') \<Longrightarrow>
     mined (matched_feature_set L) ''easy'' st st'"
proof (induction rt L all_run_ids t mx k g st rule: easy_negatives.induct)
  case (1 rt L all_run_ids t mx k g st)
  note unf = easy_negatives.simps [of rt L all_run_ids t mx k g st]
  show ?case
  proof (cases "n_neg st < t \<and> k < mx \<and> \<not> length all_run_ids < 2")
    case False
    with "1.prems" show ?thesis by (auto simp: unf mined_refl split: if_splits)
  next
    case True
    with "1.prems" obtain g1 st1 where
      c: "easy_attempt rt L all_run_ids g st = Inr (g1, st1)" and
      r: "easy_negatives rt L all_run_ids t mx (k + 1) g1 st1 = Inr (k', st')"
      by (auto simp: unf bind_err_eq_Inr)
    from True c r have "mined (matched_feature_set L) ''easy'' st1 st'"
      by (intro "1.IH") auto
    then show ?thesis
      using easy_attempt_mined [OF c] by (rule mined_trans)
  qed
qed

lemma easy_negatives_count:
  "easy_negatives rt L all_run_ids t mx k g st = Inr (k', st') \<Longrightarrow>
     n_neg st' \<le> max (n_neg st) t"
proof (induction rt L all_run_ids t mx k g st rule: easy_negatives.induct)
  case (1 rt L all_run_ids t mx k g st)
  note unf = easy_negatives.simps [of rt L all_run_ids t mx k g st]
  show ?case
  proof (cases "n_neg st < t \<and> k < mx \<and> \<not> length all_run_ids < 2")
    case False
    with "1.prems" show ?thesis by (auto simp: unf split: if_splits)
  next
    case True
    with "1.prems" obtain g1 st1 where
      c: "easy_attempt rt L all_run_ids g st = Inr (g1, st1)" and
      r: "easy_negatives rt L all_run_ids t mx (k + 1) g1 st1 = Inr (k', st')"
      by (auto simp: unf bind_err_eq_Inr)
    from True c r have "n_neg st' \<le> max (n_neg st1) t"
      by (intro "1.IH") auto
    with easy_attempt_count [OF c] True show ?thesis
      by linarith
  qed
qed

text \<open>
  How the easy-negative loop ends: the counter never passes the budget, every negative it
  adds costs an attempt, and it stops only with the target reached, the budget used up, or
  fewer than two runs to draw from.
\<close>

lemma easy_negatives_exit:
  "easy_negatives rt L all_run_ids t mx k g st = Inr (k', st') \<Longrightarrow> k \<le> mx \<Longrightarrow>
     k \<le> k' \<and> k' \<le> mx
     \<and> n_neg st' \<le> n_neg st + (k' - k)
     \<and> (t \<le> n_neg st' \<or> k' = mx \<or> length all_run_ids < 2)"
proof (induction rt L all_run_ids t mx k g st rule: easy_negatives.induct)
  case (1 rt L all_run_ids t mx k g st)
  note unf = easy_negatives.simps [of rt L all_run_ids t mx k g st]
  show ?case
  proof (cases "n_neg st < t \<and> k < mx")
    case False
    with "1.prems" have "k' = k" "st' = st" by (auto simp: unf)
    with False "1.prems"(2) show ?thesis by auto
  next
    case go: True
    show ?thesis
    proof (cases "length all_run_ids < 2")
      case True
      with go "1.prems" have "k' = k + 1" "st' = st" by (auto simp: unf)
      with go True show ?thesis by auto
    next
      case False
      with go "1.prems" obtain g1 st1 where
        c: "easy_attempt rt L all_run_ids g st = Inr (g1, st1)" and
        r: "easy_negatives rt L all_run_ids t mx (k + 1) g1 st1 = Inr (k', st')"
        by (auto simp: unf bind_err_eq_Inr)
      from go False c r have
        "k + 1 \<le> k' \<and> k' \<le> mx
         \<and> n_neg st' \<le> n_neg st1 + (k' - (k + 1))
         \<and> (t \<le> n_neg st' \<or> k' = mx \<or> length all_run_ids < 2)"
        by (intro "1.IH") auto
      with easy_attempt_count [OF c] show ?thesis
        by linarith
    qed
  qed
qed

subsection \<open>What mining preserves\<close>

lemma mined_meta:
  "mined M kind st st' \<Longrightarrow>
     \<exists>ms. meta_rows (negs st') = meta_rows (negs st) @ ms
        \<and> length (X_rows (negs st')) = length (X_rows (negs st)) + length ms
        \<and> (\<forall>m \<in> set ms. label m = 0 \<and> neg_type m = Some kind \<and> pair_key m \<notin> M)"
proof (induction rule: mined.induct)
  case (mined_refl st)
  show ?case by simp
next
  case (mined_add st st' a b fv job)
  then obtain ms where
    ms: "meta_rows (negs st') = meta_rows (negs st) @ ms"
      "length (X_rows (negs st')) = length (X_rows (negs st)) + length ms"
      "\<forall>m \<in> set ms. label m = 0 \<and> neg_type m = Some kind \<and> pair_key m \<notin> M"
    by blast
  let ?m = "\<lparr>feature_a = a, feature_b = b, job_id = job, det_score = None,
             det_category = None, label = 0, neg_type = Some kind\<rparr>"
  have "meta_rows (negs (add_negative fv a b job kind st')) = meta_rows (negs st) @ (ms @ [?m])"
    using ms(1) by (simp add: add_negative_def append_sample_def)
  moreover have "length (X_rows (negs (add_negative fv a b job kind st')))
      = length (X_rows (negs st)) + length (ms @ [?m])"
    using ms(2) by (simp add: add_negative_def append_sample_def)
  moreover have "\<forall>m \<in> set (ms @ [?m]). label m = 0 \<and> neg_type m = Some kind \<and> pair_key m \<notin> M"
    using ms(3) mined_add.hyps(2) by (simp add: pair_key_def)
  ultimately show ?case by blast
qed

lemma mined_keys_tracked: "mined M kind st st' \<Longrightarrow> keys_tracked st \<Longrightarrow> keys_tracked st'"
proof (induction rule: mined.induct)
  case (mined_refl st)
  then show ?case .
next
  case (mined_add st st' a b fv job)
  then have t: "keys_tracked st'" by simp
  with mined_add.hyps(3) show ?case
    by (auto simp: keys_tracked_def add_negative_def append_sample_def pair_key_def)
qed

subsection \<open>The matched identifier set\<close>

lemma fold_matched_feature_set:
  "fold (\<lambda>mp s.
           let a_id = get_str (mp_run_a_feature_id mp);
               b_id = get_str (mp_run_b_feature_id mp)
           in insert (b_id, a_id) (insert (a_id, b_id) s)) mps S
   = S \<union> (\<lambda>mp. (get_str (mp_run_a_feature_id mp), get_str (mp_run_b_feature_id mp))) ` set mps
       \<union> (\<lambda>mp. (get_str (mp_run_b_feature_id mp), get_str (mp_run_a_feature_id mp))) ` set mps"
  by (induction mps arbitrary: S) (auto simp: Let_def)

lemma matched_feature_set_both_orders:
  "(a, b) \<notin> build_matched_feature_set (load_matched_pairs db) \<Longrightarrow>
     (a, b) \<notin> matched_id_pairs db \<and> (b, a) \<notin> matched_id_pairs db"
  unfolding build_matched_feature_set_def matched_id_pairs_def fold_matched_feature_set
  by force

subsection \<open>Positive samples\<close>

lemma build_positives_meta:
  "build_positives L mps pos = Inr pos' \<Longrightarrow>
     \<exists>ms. meta_rows pos' = meta_rows pos @ ms
        \<and> length (X_rows pos') = length (X_rows pos) + length ms
        \<and> (\<forall>m \<in> set ms. label m = 1 \<and> neg_type m = None)"
proof (induction mps arbitrary: pos)
  case Nil
  then show ?case by simp
next
  case (Cons mp mps)
  show ?case
  proof (cases "build_positives L mps pos = Inr pos'")
    case True
    from Cons.IH [OF this] show ?thesis .
  next
    case False
    with Cons.prems obtain fv m where
      r: "build_positives L mps (append_sample fv m pos) = Inr pos'" and
      m: "label m = 1" "neg_type m = None"
      by (auto simp: Let_def bind_err_eq_Inr split: option.splits)
    from Cons.IH [OF r] obtain ms where
      ms: "meta_rows pos' = meta_rows (append_sample fv m pos) @ ms"
        "length (X_rows pos') = length (X_rows (append_sample fv m pos)) + length ms"
        "\<forall>m \<in> set ms. label m = 1 \<and> neg_type m = None"
      by blast
    have "meta_rows pos' = meta_rows pos @ (m # ms)"
      using ms(1) by (simp add: append_sample_def)
    moreover have "length (X_rows pos') = length (X_rows pos) + length (m # ms)"
      using ms(2) by (simp add: append_sample_def)
    moreover have "\<forall>x \<in> set (m # ms). label x = 1 \<and> neg_type x = None"
      using ms(3) m by simp
    ultimately show ?thesis by blast
  qed
qed

lemma build_positives_unresolved:
  "\<forall>mp \<in> set mps.
      map_of (features_by_id L) (get_str (mp_run_a_feature_id mp)) = None
      \<or> map_of (features_by_id L) (get_str (mp_run_b_feature_id mp)) = None \<Longrightarrow>
   build_positives L mps pos = Inr pos"
  by (induction mps) (auto simp: Let_def split: option.splits)

lemma load_collections_Inr:
  "load_collections rt db args = Inr L \<Longrightarrow>
     matched_pairs L = load_matched_pairs db \<and> load_matched_pairs db \<noteq> []
     \<and> matched_feature_set L = build_matched_feature_set (load_matched_pairs db)"
  unfolding load_collections_def Let_def
  by (cases "load_matched_pairs db = []") auto

lemma collect_samples_Inr:
  assumes "collect_samples rt db args = Inr c"
  shows "\<exists>L st1 st2.
    load_collections rt db args = Inr L
    \<and> build_positives L (matched_pairs L) \<lparr>X_rows = [], meta_rows = []\<rparr> = Inr (positives c)
    \<and> X_rows (positives c) \<noteq> []
    \<and> hard_negatives L
       (target_hard_of (target_neg_of (length (X_rows (positives c))) (neg_pos_ratio args)))
       (matched_pairs L) \<lparr>negs = \<lparr>X_rows = [], meta_rows = []\<rparr>, neg_pair_set = {}\<rparr> = Inr st1
    \<and> easy_negatives rt L (map fst (all_features_for_runs L))
       (target_hard_of (target_neg_of (length (X_rows (positives c))) (neg_pos_ratio args))
        + target_easy_of (target_neg_of (length (X_rows (positives c))) (neg_pos_ratio args)))
       (target_easy_of (target_neg_of (length (X_rows (positives c))) (neg_pos_ratio args)) * 20)
       0 (random_seed rt (seed args)) st1 = Inr (easy_attempts_made c, st2)
    \<and> negatives c = negs st2
    \<and> candidate_run_ids c = map fst (all_features_for_runs L)"
proof -
  from assms obtain L pos where
    L: "load_collections rt db args = Inr L" and
    pos: "build_positives L (matched_pairs L) \<lparr>X_rows = [], meta_rows = []\<rparr> = Inr pos" and
    rest: "(if length (X_rows pos) = 0
            then Inl (SystemExit ''[DATASET] ERROR: No valid positive samples. Aborting.'' 1)
            else bind_err (hard_negatives L
                   (target_hard_of (target_neg_of (length (X_rows pos)) (neg_pos_ratio args)))
                   (matched_pairs L) \<lparr>negs = \<lparr>X_rows = [], meta_rows = []\<rparr>, neg_pair_set = {}\<rparr>)
                 (\<lambda>st. bind_err (easy_negatives rt L (map fst (all_features_for_runs L))
                     (target_hard_of (target_neg_of (length (X_rows pos)) (neg_pos_ratio args))
                      + target_easy_of (target_neg_of (length (X_rows pos)) (neg_pos_ratio args)))
                     (target_easy_of (target_neg_of (length (X_rows pos)) (neg_pos_ratio args)) * 20)
                     0 (random_seed rt (seed args)) st)
                   (\<lambda>(easy_attempts, st).
                      Inr \<lparr>positives = pos, negatives = negs st,
                           candidate_run_ids = map fst (all_features_for_runs L),
                           easy_attempts_made = easy_attempts\<rparr>))) = Inr c"
    unfolding collect_samples_def Let_def bind_err_eq_Inr by blast
  from rest have ne: "X_rows pos \<noteq> []" by (auto split: if_splits)
  with rest obtain st1 k2 st2 where
    h: "hard_negatives L
         (target_hard_of (target_neg_of (length (X_rows pos)) (neg_pos_ratio args)))
         (matched_pairs L) \<lparr>negs = \<lparr>X_rows = [], meta_rows = []\<rparr>, neg_pair_set = {}\<rparr> = Inr st1" and
    e: "easy_negatives rt L (map fst (all_features_for_runs L))
         (target_hard_of (target_neg_of (length (X_rows pos)) (neg_pos_ratio args))
          + target_easy_of (target_neg_of (length (X_rows pos)) (neg_pos_ratio args)))
         (target_easy_of (target_neg_of (length (X_rows pos)) (neg_pos_ratio args)) * 20)
         0 (random_seed rt (seed args)) st1 = Inr (k2, st2)" and
    c: "c = \<lparr>positives = pos, negatives = negs st2,
              candidate_run_ids = map fst (all_features_for_runs L),
              easy_attempts_made = k2\<rparr>"
    by (auto simp: bind_err_eq_Inr)
  from c have "positives c = pos" "negatives c = negs st2"
    "candidate_run_ids c = map fst (all_features_for_runs L)" "easy_attempts_made c = k2"
    by simp_all
  with L pos ne h e show ?thesis by blast
qed

subsection \<open>The negatives of a successful build\<close>

lemma collect_samples_negatives:
  assumes "collect_samples rt db args = Inr c"
  shows "\<exists>hs es.
     meta_rows (negatives c) = hs @ es
     \<and> length (X_rows (negatives c)) = length hs + length es
     \<and> (\<forall>m \<in> set hs. label m = 0 \<and> neg_type m = Some ''hard''
            \<and> pair_key m \<notin> build_matched_feature_set (load_matched_pairs db))
     \<and> (\<forall>m \<in> set es. label m = 0 \<and> neg_type m = Some ''easy''
            \<and> pair_key m \<notin> build_matched_feature_set (load_matched_pairs db))
     \<and> distinct (map pair_key (hs @ es))
     \<and> int (length hs)
          \<le> max 0 (target_hard_of (target_neg_of (length (X_rows (positives c))) (neg_pos_ratio args)))
     \<and> int (length hs + length es)
          \<le> max (int (length hs))
               (target_hard_of (target_neg_of (length (X_rows (positives c))) (neg_pos_ratio args))
                + target_easy_of (target_neg_of (length (X_rows (positives c))) (neg_pos_ratio args)))"
proof -
  let ?st0 = "\<lparr>negs = \<lparr>X_rows = [], meta_rows = []\<rparr>, neg_pair_set = {}\<rparr>"
  let ?th = "target_hard_of (target_neg_of (length (X_rows (positives c))) (neg_pos_ratio args))"
  let ?te = "target_easy_of (target_neg_of (length (X_rows (positives c))) (neg_pos_ratio args))"
  from collect_samples_Inr [OF assms] obtain L st1 st2 where
    L: "load_collections rt db args = Inr L" and
    h: "hard_negatives L ?th (matched_pairs L) ?st0 = Inr st1" and
    e: "easy_negatives rt L (map fst (all_features_for_runs L)) (?th + ?te) (?te * 20) 0
          (random_seed rt (seed args)) st1 = Inr (easy_attempts_made c, st2)" and
    c: "negatives c = negs st2"
    by blast
  have M: "matched_feature_set L = build_matched_feature_set (load_matched_pairs db)"
    using load_collections_Inr [OF L] by simp
  note mh = hard_negatives_mined [OF h]
  note me = easy_negatives_mined [OF e]
  from mined_meta [OF mh] obtain hs where
    hs: "meta_rows (negs st1) = hs" "length (X_rows (negs st1)) = length hs"
      "\<forall>m \<in> set hs. label m = 0 \<and> neg_type m = Some ''hard'' \<and> pair_key m \<notin> matched_feature_set L"
    by auto
  from mined_meta [OF me] obtain es where
    es: "meta_rows (negs st2) = meta_rows (negs st1) @ es"
      "length (X_rows (negs st2)) = length (X_rows (negs st1)) + length es"
      "\<forall>m \<in> set es. label m = 0 \<and> neg_type m = Some ''easy'' \<and> pair_key m \<notin> matched_feature_set L"
    by auto
  have "keys_tracked ?st0" by (simp add: keys_tracked_def)
  then have "keys_tracked st2"
    using mh me by (blast intro: mined_keys_tracked)
  then have d: "distinct (map pair_key (hs @ es))"
    using hs(1) es(1) by (simp add: keys_tracked_def)
  have n1: "n_neg st1 = int (length hs)" using hs(2) by (simp add: n_neg_def)
  have n2: "n_neg st2 = int (length hs + length es)" using hs(2) es(2) by (simp add: n_neg_def)
  have b1: "int (length hs) \<le> max 0 ?th"
    using hard_negatives_count [OF h] n1 by (simp add: n_neg_def)
  have b2: "int (length hs + length es) \<le> max (int (length hs)) (?th + ?te)"
    using easy_negatives_count [OF e] n1 n2 by simp
  show ?thesis
    using c hs es d b1 b2 M by (intro exI [of _ hs] exI [of _ es]) simp
qed

text \<open>
  The counts of a successful build: the hard negatives come first and respect their
  target, the easy negatives follow, each paid for by an attempt, and the easy loop has
  ended for one of its three reasons.
\<close>

lemma collect_samples_fill:
  assumes "collect_samples rt db args = Inr c"
    and "0 \<le> target_easy_of (target_neg_of (length (X_rows (positives c))) (neg_pos_ratio args))"
  shows "\<exists>hs es.
     meta_rows (negatives c) = hs @ es
     \<and> length (X_rows (negatives c)) = length hs + length es
     \<and> (\<forall>m \<in> set hs. neg_type m = Some ''hard'')
     \<and> (\<forall>m \<in> set es. neg_type m = Some ''easy'')
     \<and> int (length hs)
          \<le> max 0 (target_hard_of (target_neg_of (length (X_rows (positives c))) (neg_pos_ratio args)))
     \<and> int (length hs + length es)
          \<le> max (int (length hs))
               (target_hard_of (target_neg_of (length (X_rows (positives c))) (neg_pos_ratio args))
                + target_easy_of (target_neg_of (length (X_rows (positives c))) (neg_pos_ratio args)))
     \<and> int (length es) \<le> easy_attempts_made c
     \<and> easy_attempts_made c
          \<le> target_easy_of (target_neg_of (length (X_rows (positives c))) (neg_pos_ratio args)) * 20
     \<and> (target_hard_of (target_neg_of (length (X_rows (positives c))) (neg_pos_ratio args))
           + target_easy_of (target_neg_of (length (X_rows (positives c))) (neg_pos_ratio args))
             \<le> int (length hs + length es)
         \<or> easy_attempts_made c
             = target_easy_of (target_neg_of (length (X_rows (positives c))) (neg_pos_ratio args)) * 20
         \<or> length (candidate_run_ids c) < 2)"
proof -
  let ?st0 = "\<lparr>negs = \<lparr>X_rows = [], meta_rows = []\<rparr>, neg_pair_set = {}\<rparr>"
  let ?th = "target_hard_of (target_neg_of (length (X_rows (positives c))) (neg_pos_ratio args))"
  let ?te = "target_easy_of (target_neg_of (length (X_rows (positives c))) (neg_pos_ratio args))"
  from collect_samples_Inr [OF assms(1)] obtain L st1 st2 where
    h: "hard_negatives L ?th (matched_pairs L) ?st0 = Inr st1" and
    e: "easy_negatives rt L (map fst (all_features_for_runs L)) (?th + ?te) (?te * 20) 0
          (random_seed rt (seed args)) st1 = Inr (easy_attempts_made c, st2)" and
    c: "negatives c = negs st2" and
    r: "candidate_run_ids c = map fst (all_features_for_runs L)"
    by blast
  from mined_meta [OF hard_negatives_mined [OF h]] obtain hs where
    hs: "meta_rows (negs st1) = hs" "length (X_rows (negs st1)) = length hs"
      "\<forall>m \<in> set hs. neg_type m = Some ''hard''"
    by auto
  from mined_meta [OF easy_negatives_mined [OF e]] obtain es where
    es: "meta_rows (negs st2) = meta_rows (negs st1) @ es"
      "length (X_rows (negs st2)) = length (X_rows (negs st1)) + length es"
      "\<forall>m \<in> set es. neg_type m = Some ''easy''"
    by auto
  have n1: "n_neg st1 = int (length hs)" using hs(2) by (simp add: n_neg_def)
  have n2: "n_neg st2 = int (length hs + length es)" using hs(2) es(2) by (simp add: n_neg_def)
  have b1: "int (length hs) \<le> max 0 ?th"
    using hard_negatives_count [OF h] n1 by (simp add: n_neg_def)
  have b2: "int (length hs + length es) \<le> max (int (length hs)) (?th + ?te)"
    using easy_negatives_count [OF e] n1 n2 by simp
  have mx: "(0 :: int) \<le> ?te * 20" using assms(2) by simp
  from easy_negatives_exit [OF e mx] have
    x1: "0 \<le> easy_attempts_made c" "easy_attempts_made c \<le> ?te * 20" and
    x2: "n_neg st2 \<le> n_neg st1 + (easy_attempts_made c - 0)" and
    x3: "?th + ?te \<le> n_neg st2 \<or> easy_attempts_made c = ?te * 20
         \<or> length (map fst (all_features_for_runs L)) < 2"
    by blast+
  have b3: "int (length es) \<le> easy_attempts_made c"
    using x2 n1 n2 by simp
  have b4: "?th + ?te \<le> int (length hs + length es) \<or> easy_attempts_made c = ?te * 20
      \<or> length (candidate_run_ids c) < 2"
    using x3 n2 r by simp
  have m: "meta_rows (negatives c) = hs @ es"
    using c hs(1) es(1) by simp
  have l: "length (X_rows (negatives c)) = length hs + length es"
    using c hs(2) es(2) by simp
  from m l hs(3) es(3) b1 b2 b3 x1(2) b4 show ?thesis
    by blast
qed

lemma collect_samples_positives:
  assumes "collect_samples rt db args = Inr c"
  shows "\<forall>m \<in> set (meta_rows (positives c)). label m = 1 \<and> neg_type m = None"
proof -
  from collect_samples_Inr [OF assms] obtain L where
    "build_positives L (matched_pairs L) \<lparr>X_rows = [], meta_rows = []\<rparr> = Inr (positives c)"
    by blast
  from build_positives_meta [OF this] show ?thesis by auto
qed

lemma shuffle_samples_Inr:
  assumes "shuffle_samples rt args c = Inr ds"
  shows "ds_metadata ds =
           map (\<lambda>i. (meta_rows (positives c) @ meta_rows (negatives c)) ! i)
             (np_random_permutation rt (seed args)
                (length (X_rows (positives c) @ X_rows (negatives c))))
         \<and> (\<forall>i \<in> set (np_random_permutation rt (seed args)
                (length (X_rows (positives c) @ X_rows (negatives c)))).
              i < length (meta_rows (positives c) @ meta_rows (negatives c)))"
  using assms
  by (auto simp: shuffle_samples_def Let_def bind_err_eq_Inr dest!: take_rows_Inr)

lemma build_dataset_Inr:
  assumes "build_dataset rt db args = Inr ds"
  obtains c where "collect_samples rt db args = Inr c" "shuffle_samples rt args c = Inr ds"
  using assms by (auto simp: build_dataset_def bind_err_eq_Inr)

lemma distinct_keys_nth_neq:
  "distinct (map k (filter P xs)) \<Longrightarrow> i < j \<Longrightarrow> j < length xs \<Longrightarrow> P (xs ! i) \<Longrightarrow> P (xs ! j) \<Longrightarrow>
     k (xs ! i) \<noteq> k (xs ! j)"
proof (induction xs arbitrary: i j)
  case Nil
  then show ?case by simp
next
  case (Cons x xs)
  obtain j' where j: "j = Suc j'" using Cons.prems(2) by (cases j) auto
  show ?case
  proof (cases i)
    case 0
    have "xs ! j' \<in> set (filter P xs)"
      using Cons.prems j by auto
    then have "k (xs ! j') \<in> k ` set (filter P xs)" by blast
    with Cons.prems 0 j show ?thesis by auto
  next
    case (Suc i')
    with Cons.prems j have "k (xs ! i') \<noteq> k (xs ! j')"
      by (intro Cons.IH) (auto split: if_splits)
    with Suc j show ?thesis by simp
  qed
qed

lemma distinct_keys_select:
  assumes "distinct (map k (filter P xs))" "distinct js" "\<forall>i \<in> set js. i < length xs"
  shows "distinct (map k (filter P (map (\<lambda>i. xs ! i) js)))"
proof -
  have f: "filter P (map (\<lambda>i. xs ! i) js) = map (\<lambda>i. xs ! i) (filter (\<lambda>i. P (xs ! i)) js)"
    by (simp add: filter_map comp_def)
  have inj: "inj_on (\<lambda>i. k (xs ! i)) (set (filter (\<lambda>i. P (xs ! i)) js))"
  proof (rule inj_onI)
    fix i j
    assume i: "i \<in> set (filter (\<lambda>i. P (xs ! i)) js)" and j: "j \<in> set (filter (\<lambda>i. P (xs ! i)) js)"
      and eq: "k (xs ! i) = k (xs ! j)"
    from i j assms(3) have b: "i < length xs" "j < length xs" "P (xs ! i)" "P (xs ! j)" by auto
    show "i = j"
    proof (rule ccontr)
      assume "i \<noteq> j"
      then consider "i < j" | "j < i" by linarith
      then show False
        using distinct_keys_nth_neq [OF assms(1), of i j] distinct_keys_nth_neq [OF assms(1), of j i]
          b eq by cases auto
    qed
  qed
  show ?thesis
    unfolding f using assms(2) inj by (simp add: distinct_map comp_def)
qed

text \<open>
  Claim C1. Leakage invariant: every negative sample of a dataset that the build returns
  (label 0, tagged hard or easy) has an identifier pair that is not a matched identifier
  pair of the matched-pair source, in either order.
\<close>

theorem no_leakage:
  assumes "build_dataset rt db args = Inr ds"
    and "m \<in> set (ds_metadata ds)"
    and "is_negative m"
  shows "label m = 0
     \<and> (feature_a m, feature_b m) \<notin> matched_id_pairs db
     \<and> (feature_b m, feature_a m) \<notin> matched_id_pairs db"
proof -
  from assms(1) obtain c where
    c: "collect_samples rt db args = Inr c" and s: "shuffle_samples rt args c = Inr ds"
    by (rule build_dataset_Inr)
  from shuffle_samples_Inr [OF s] assms(2)
  have "m \<in> set (meta_rows (positives c) @ meta_rows (negatives c))"
    by (auto simp del: set_append)
  moreover have "m \<notin> set (meta_rows (positives c))"
    using collect_samples_positives [OF c] assms(3) by (auto simp: is_negative_def)
  ultimately have neg: "m \<in> set (meta_rows (negatives c))" by simp
  from collect_samples_negatives [OF c] neg
  have "label m = 0 \<and> pair_key m \<notin> build_matched_feature_set (load_matched_pairs db)"
    by auto
  then show ?thesis
    using matched_feature_set_both_orders [of "feature_a m" "feature_b m" db]
    by (simp add: pair_key_def)
qed

text \<open>
  Claim C10. Within one build the negative samples are pairwise distinct by ordered
  identifier pair, provided the shuffle draws a permutation (no row index twice). The
  uniqueness is of ordered pairs only: the instance below holds both (a, b) and (b, a).
\<close>

theorem negatives_pairwise_distinct:
  assumes "build_dataset rt db args = Inr ds"
    and "\<forall>n. distinct (np_random_permutation rt (seed args) n)"
  shows "distinct (map pair_key (filter is_negative (ds_metadata ds)))"
proof -
  from assms(1) obtain c where
    c: "collect_samples rt db args = Inr c" and s: "shuffle_samples rt args c = Inr ds"
    by (rule build_dataset_Inr)
  let ?md = "meta_rows (positives c) @ meta_rows (negatives c)"
  let ?js = "np_random_permutation rt (seed args)
               (length (X_rows (positives c) @ X_rows (negatives c)))"
  from shuffle_samples_Inr [OF s] have
    ds: "ds_metadata ds = map (\<lambda>i. ?md ! i) ?js" and inb: "\<forall>i \<in> set ?js. i < length ?md"
    by blast+
  have p: "filter is_negative (meta_rows (positives c)) = []"
    using collect_samples_positives [OF c] by (auto simp: filter_empty_conv is_negative_def)
  from collect_samples_negatives [OF c] have
    n: "distinct (map pair_key (meta_rows (negatives c)))"
    by auto
  have "distinct (map pair_key (filter is_negative (meta_rows (negatives c))))"
    using n by (rule distinct_map_filter)
  with p have "distinct (map pair_key (filter is_negative ?md))" by simp
  from distinct_keys_select [OF this _ inb] assms(2) show ?thesis
    unfolding ds by blast
qed

lemma targets_10_3:
  "target_neg_of 10 3 = 30" "target_hard_of 30 = 18" "target_easy_of 30 = 12"
  by (simp_all add: target_neg_of_def target_hard_of_def target_easy_of_def py_int_def)

text \<open>
  Claim C2, amended. With 10 positives and ratio 3.0 the targets are 30, 18 and 12. Hard
  mining yields at most 18 negatives and is not retried. Easy mining then makes attempts,
  each adding at most one easy negative, and stops only when the total of hard and easy
  negatives has reached target_hard + target_easy = 30, or 240 (20 times target_easy)
  attempts have been made, or the candidate pool has fewer than two runs. So it adds at most
  30 minus the hard count, which exceeds target_easy when hard mining fell short; the total
  never exceeds 30, and it ends below 30 only when the attempt budget is used up or fewer
  than two runs are available.
\<close>

theorem negative_fill_policy:
  assumes "collect_samples rt db args = Inr c"
    and "length (X_rows (positives c)) = 10"
    and "neg_pos_ratio args = 3"
  shows "target_neg_of 10 3 = 30 \<and> target_hard_of 30 = 18 \<and> target_easy_of 30 = 12
     \<and> n_hard c \<le> 18
     \<and> n_easy c \<le> 30 - n_hard c
     \<and> length (X_rows (negatives c)) = n_hard c + n_easy c
     \<and> length (X_rows (negatives c)) \<le> 30
     \<and> int (n_easy c) \<le> easy_attempts_made c
     \<and> easy_attempts_made c \<le> 240
     \<and> (length (X_rows (negatives c)) = 30
         \<or> easy_attempts_made c = 240
         \<or> length (candidate_run_ids c) < 2)"
proof -
  have te: "0 \<le> target_easy_of (target_neg_of (length (X_rows (positives c))) (neg_pos_ratio args))"
    unfolding assms(2,3) targets_10_3 by simp
  from collect_samples_fill [OF assms(1) te] obtain hs es where
    m: "meta_rows (negatives c) = hs @ es" and
    l: "length (X_rows (negatives c)) = length hs + length es" and
    h: "\<forall>m \<in> set hs. neg_type m = Some ''hard''" and
    e: "\<forall>m \<in> set es. neg_type m = Some ''easy''" and
    b1: "int (length hs) \<le> max 0 (target_hard_of (target_neg_of 10 3))" and
    b2: "int (length hs + length es) \<le> max (int (length hs))
           (target_hard_of (target_neg_of 10 3) + target_easy_of (target_neg_of 10 3))" and
    b3: "int (length es) \<le> easy_attempts_made c" and
    b4: "easy_attempts_made c \<le> target_easy_of (target_neg_of 10 3) * 20" and
    b5: "target_hard_of (target_neg_of 10 3) + target_easy_of (target_neg_of 10 3)
           \<le> int (length hs + length es)
         \<or> easy_attempts_made c = target_easy_of (target_neg_of 10 3) * 20
         \<or> length (candidate_run_ids c) < 2"
    unfolding assms(2,3) by blast
  have fh: "filter (\<lambda>m. neg_type m = Some ''hard'') hs = hs"
    using h by (simp add: filter_id_conv)
  have fe: "filter (\<lambda>m. neg_type m = Some ''hard'') es = []"
    using e by (auto simp: filter_empty_conv)
  have gh: "filter (\<lambda>m. neg_type m = Some ''easy'') hs = []"
    using h by (auto simp: filter_empty_conv)
  have ge: "filter (\<lambda>m. neg_type m = Some ''easy'') es = es"
    using e by (simp add: filter_id_conv)
  have nh: "n_hard c = length hs" by (simp add: n_hard_def m fh fe)
  have ne: "n_easy c = length es" by (simp add: n_easy_def m gh ge)
  from b1 b2 b3 b4 b5 show ?thesis
    unfolding targets_10_3 nh ne l by auto
qed

text \<open>
  Claim C9. A build whose matched-pair source is empty after the collection-name probe, or
  that has no resolvable matched pair (zero positives), aborts with its diagnostic and exit
  code 1; a build that returns a dataset had matched pairs and a resolvable one.
\<close>

theorem data_absence_aborts:
  "(load_matched_pairs db = [] \<longrightarrow>
      build_dataset rt db args =
        Inl (SystemExit ''[DATASET] ERROR: No matched pairs in any collection. Aborting.'' 1))
   \<and> (no_resolvable_pair rt db args \<longrightarrow>
      build_dataset rt db args =
        Inl (SystemExit ''[DATASET] ERROR: No valid positive samples. Aborting.'' 1))
   \<and> (build_dataset rt db args = Inr ds \<longrightarrow>
      load_matched_pairs db \<noteq> [] \<and> \<not> no_resolvable_pair rt db args)"
proof -
  have a: "build_dataset rt db args =
      Inl (SystemExit ''[DATASET] ERROR: No matched pairs in any collection. Aborting.'' 1)"
    if "load_matched_pairs db = []"
    using that by (simp add: build_dataset_def collect_samples_def load_collections_def)
  have b: "build_dataset rt db args =
      Inl (SystemExit ''[DATASET] ERROR: No valid positive samples. Aborting.'' 1)"
    if "no_resolvable_pair rt db args"
  proof -
    from that obtain L where
      L: "load_collections rt db args = Inr L" and
      u: "\<forall>mp \<in> set (matched_pairs L). \<not> resolvable L mp"
      by (auto simp: no_resolvable_pair_def list_all_iff split: sum.splits)
    from u have "build_positives L (matched_pairs L) \<lparr>X_rows = [], meta_rows = []\<rparr>
        = Inr \<lparr>X_rows = [], meta_rows = []\<rparr>"
      by (intro build_positives_unresolved) (auto simp: resolvable_def)
    with L show ?thesis
      by (simp add: build_dataset_def collect_samples_def)
  qed
  from a b show ?thesis by auto
qed

subsection \<open>Independence of the set iteration order\<close>

lemma find_features_by_id_cong:
  "set ids = set ids' \<Longrightarrow> find_features_by_id db name ids = find_features_by_id db name ids'"
  by (simp add: find_features_by_id_def)

lemma find_features_by_run_cong:
  "set ids = set ids' \<Longrightarrow> find_features_by_run db name ids = find_features_by_run db name ids'"
  by (simp add: find_features_by_run_def)

lemma load_collections_set_iteration:
  assumes "\<forall>xs. set (set_iteration rt1 xs) = set xs" "\<forall>xs. set (set_iteration rt2 xs) = set xs"
  shows "load_collections rt1 db args = load_collections rt2 db args"
proof -
  have i: "find_features_by_id db name (set_iteration rt1 ids)
      = find_features_by_id db name (set_iteration rt2 ids)" for name ids
    using assms by (intro find_features_by_id_cong) simp
  have r: "find_features_by_run db name (set_iteration rt1 ids)
      = find_features_by_run db name (set_iteration rt2 ids)" for name ids
    using assms by (intro find_features_by_run_cong) simp
  show ?thesis
    unfolding load_collections_def load_matched_features_def Let_def i r ..
qed

lemma easy_attempt_generators:
  assumes "random_sample2 rt1 = random_sample2 rt2" "random_choice rt1 = random_choice rt2"
  shows "easy_attempt rt1 L ids g st = easy_attempt rt2 L ids g st"
  unfolding easy_attempt_def assms ..

lemma easy_negatives_generators:
  assumes "random_sample2 rt1 = random_sample2 rt2" "random_choice rt1 = random_choice rt2"
  shows "easy_negatives rt1 L ids t mx k g st = easy_negatives rt2 L ids t mx k g st"
  using assms
proof (induction rt1 L ids t mx k g st rule: easy_negatives.induct)
  case (1 rt1 L ids t mx k g st)
  show ?case
  proof (cases "n_neg st < t \<and> k < mx \<and> \<not> length ids < 2")
    case False
    then show ?thesis
      by (auto simp: easy_negatives.simps [of _ L ids t mx k g st])
  next
    case True
    have a: "easy_attempt rt1 L ids g st = easy_attempt rt2 L ids g st"
      using "1.prems" by (rule easy_attempt_generators)
    show ?thesis
    proof (cases "easy_attempt rt2 L ids g st")
      case (Inl e)
      with True a show ?thesis
        by (simp add: easy_negatives.simps [of _ L ids t mx k g st])
    next
      case (Inr p)
      obtain g1 st1 where p: "p = (g1, st1)" by (cases p)
      have "easy_negatives rt1 L ids t mx (k + 1) g1 st1 = easy_negatives rt2 L ids t mx (k + 1) g1 st1"
        using True "1.prems" by (intro "1.IH") auto
      with True a Inr p show ?thesis
        by (simp add: easy_negatives.simps [of _ L ids t mx k g st])
    qed
  qed
qed

text \<open>
  Claim C8. Reproducibility: two builds on the same record store with the same arguments
  (the seed among them) and the same two seeded generators return the same result: the
  same rows, labels and audit metadata in the same order. The one thing that may differ
  between two runs, the iteration order of sets of identifiers, has no influence.
\<close>

theorem build_reproducible:
  assumes "\<forall>xs. set (set_iteration rt1 xs) = set xs"
    and "\<forall>xs. set (set_iteration rt2 xs) = set xs"
    and "random_seed rt1 = random_seed rt2"
    and "random_sample2 rt1 = random_sample2 rt2"
    and "random_choice rt1 = random_choice rt2"
    and "np_random_permutation rt1 = np_random_permutation rt2"
  shows "build_dataset rt1 db args = build_dataset rt2 db args"
proof -
  have l: "load_collections rt1 db args = load_collections rt2 db args"
    using assms(1,2) by (rule load_collections_set_iteration)
  have e: "easy_negatives rt1 L ids t mx k g st = easy_negatives rt2 L ids t mx k g st"
    for L ids t mx k g st
    using assms(4,5) by (rule easy_negatives_generators)
  have c: "collect_samples rt1 db args = collect_samples rt2 db args"
    unfolding collect_samples_def Let_def l e assms(3) ..
  have s: "shuffle_samples rt1 args x = shuffle_samples rt2 args x" for x
    unfolding shuffle_samples_def assms(6) ..
  show ?thesis
    by (simp add: build_dataset_def c s)
qed


lemma build_small_store:
  "build_dataset sample_runtime small_store default_args = Inr small_dataset"
  by code_simp

lemma counts_walking:
  "build_counts (collect_samples walking_runtime ten_store default_args)
     = Some (10, 0, 30, 30, 2)"
  by code_simp

lemma counts_one_run:
  "build_counts (collect_samples sample_runtime one_run_store default_args)
     = Some (10, 0, 0, 1, 1)"
  by code_simp

text \<open>
  With draws that always hit a matched pair every attempt is rejected. The build on the
  store of ten matched pairs is evaluated phase by phase, and the 240 rejected attempts
  are covered by one induction instead of being run one by one.
\<close>

lemma ten_load: "load_collections sample_runtime ten_store default_args = Inr ten_locals"
  by code_simp

lemma ten_pos:
  "build_positives ten_locals (matched_pairs ten_locals) \<lparr>X_rows = [], meta_rows = []\<rparr>
     = Inr ten_positives"
  by code_simp

lemma ten_pos_length: "length (X_rows ten_positives) = 10"
  by code_simp

lemma ten_hard: "hard_negatives ten_locals 18 (matched_pairs ten_locals) no_negatives = Inr no_negatives"
  by code_simp

lemma ten_run_ids: "map fst (all_features_for_runs ten_locals) = [''R1'', ''R2'']"
  by code_simp

lemma ten_first_pairs:
  "(case map_of (all_features_for_runs ten_locals) ''R1'' of Some fs \<Rightarrow> fs | None \<Rightarrow> []) \<noteq> []"
  "(case map_of (all_features_for_runs ten_locals) ''R2'' of Some fs \<Rightarrow> fs | None \<Rightarrow> []) \<noteq> []"
  "easy_candidate ten_locals ''R1'' ''R2''
     ((case map_of (all_features_for_runs ten_locals) ''R1'' of Some fs \<Rightarrow> fs | None \<Rightarrow> []) ! 0)
     ((case map_of (all_features_for_runs ten_locals) ''R2'' of Some fs \<Rightarrow> fs | None \<Rightarrow> []) ! 0)
     no_negatives = Inr no_negatives"
  "easy_candidate ten_locals ''R2'' ''R1''
     ((case map_of (all_features_for_runs ten_locals) ''R2'' of Some fs \<Rightarrow> fs | None \<Rightarrow> []) ! 0)
     ((case map_of (all_features_for_runs ten_locals) ''R1'' of Some fs \<Rightarrow> fs | None \<Rightarrow> []) ! 0)
     no_negatives = Inr no_negatives"
  by code_simp+

lemma easy_negatives_all_rejected:
  assumes "\<And>g. \<exists>g'. easy_attempt rt L all_run_ids g st = Inr (g', st)"
    and "n_neg st < t" and "\<not> length all_run_ids < 2" and "k \<le> mx"
  shows "easy_negatives rt L all_run_ids t mx k g st = Inr (mx, st)"
  using assms(4)
proof (induction "nat (mx - k)" arbitrary: k g)
  case 0
  then have "k = mx" by simp
  then show ?case
    by (simp add: easy_negatives.simps [of rt L all_run_ids t mx mx g st])
next
  case (Suc n)
  then have lt: "k < mx" by linarith
  from assms(1) obtain g' where a: "easy_attempt rt L all_run_ids g st = Inr (g', st)"
    by blast
  have "easy_negatives rt L all_run_ids t mx (k + 1) g' st = Inr (mx, st)"
    using Suc.hyps(2) lt by (intro Suc.hyps(1)) linarith+
  with a lt assms(2,3) show ?case
    by (simp add: easy_negatives.simps [of rt L all_run_ids t mx k g st])
qed

lemma ten_rejected_attempt:
  "\<exists>g'. easy_attempt sample_runtime ten_locals [''R1'', ''R2''] g no_negatives
          = Inr (g', no_negatives)"
  by (cases "even (g div 3)")
    (simp_all add: easy_attempt_def sample_runtime_def list_getitem_def ten_first_pairs)

lemma default_args_fields: "neg_pos_ratio default_args = 3" "seed default_args = 42"
  by (simp_all add: default_args_def)

lemma counts_rejected:
  "build_counts (collect_samples sample_runtime ten_store default_args)
     = Some (10, 0, 0, 240, 2)"
proof -
  have e: "easy_negatives sample_runtime ten_locals [''R1'', ''R2''] 30 240 0 g no_negatives
      = Inr (240, no_negatives)" for g
    by (rule easy_negatives_all_rejected [OF ten_rejected_attempt])
      (simp_all add: n_neg_def no_negatives_def)
  have ne: "X_rows ten_positives \<noteq> []"
    using ten_pos_length by auto
  have c: "collect_samples sample_runtime ten_store default_args
      = Inr \<lparr>positives = ten_positives, negatives = negs no_negatives,
             candidate_run_ids = [''R1'', ''R2''], easy_attempts_made = 240\<rparr>"
    unfolding collect_samples_def Let_def no_negatives_def [symmetric]
    by (simp add: ten_load ten_pos ten_pos_length default_args_fields targets_10_3 ten_hard
        ten_run_ids e ne)
  show ?thesis
    unfolding c by (simp add: build_counts_def ten_pos_length n_hard_def n_easy_def no_negatives_def)
qed


lemma probe_finds_other_casing:
  "load_matched_pairs renamed_store = [sample_pair ''p'' ''q'']"
  by code_simp

lemma build_counts_Some:
  "build_counts r = Some (p, h, e, k, n) \<Longrightarrow>
     \<exists>c. r = Inr c \<and> length (X_rows (positives c)) = p \<and> n_hard c = h \<and> n_easy c = e
        \<and> easy_attempts_made c = k \<and> length (candidate_run_ids c) = n"
  by (cases r) (auto simp: build_counts_def)

lemma matched_id_pairs_small: "matched_id_pairs small_store = {(''p'', ''q'')}"
  by (simp add: matched_id_pairs_def load_matched_pairs_def small_store_def sample_store_def
      sample_pair_def get_str_def)

text \<open>
  The theorem at the hard negative (n, q) of the small store.
\<close>

theorem no_leakage_witness:
  "build_dataset sample_runtime small_store default_args = Inr small_dataset
   \<and> sample_negative ''n'' ''q'' ''job'' ''hard'' \<in> set (ds_metadata small_dataset)
   \<and> is_negative (sample_negative ''n'' ''q'' ''job'' ''hard'')
   \<and> (''n'', ''q'') \<notin> matched_id_pairs small_store
   \<and> (''q'', ''n'') \<notin> matched_id_pairs small_store"
proof -
  have m: "sample_negative ''n'' ''q'' ''job'' ''hard'' \<in> set (ds_metadata small_dataset)"
    by (simp add: small_dataset_def)
  have n: "is_negative (sample_negative ''n'' ''q'' ''job'' ''hard'')"
    by (simp add: is_negative_def sample_negative_def)
  from no_leakage [OF build_small_store m n] build_small_store m n show ?thesis
    by (simp add: sample_negative_def)
qed

text \<open>
  The theorem on the small store: the three negatives have distinct ordered pairs, and the
  two easy negatives are the same two records in opposite orientations.
\<close>

theorem negatives_pairwise_distinct_witness:
  "build_dataset sample_runtime small_store default_args = Inr small_dataset
   \<and> (\<forall>n. distinct (np_random_permutation sample_runtime (seed default_args) n))
   \<and> distinct (map pair_key (filter is_negative (ds_metadata small_dataset)))
   \<and> map pair_key (filter is_negative (ds_metadata small_dataset))
       = [(''b'', ''a''), (''a'', ''b''), (''n'', ''q'')]"
proof -
  have p: "\<forall>n. distinct (np_random_permutation sample_runtime (seed default_args) n)"
    by (simp add: sample_runtime_def)
  have k: "map pair_key (filter is_negative (ds_metadata small_dataset))
       = [(''b'', ''a''), (''a'', ''b''), (''n'', ''q'')]"
    by (simp add: small_dataset_def is_negative_def sample_negative_def pair_key_def)
  from negatives_pairwise_distinct [OF build_small_store p] build_small_store p k
  show ?thesis by blast
qed

text \<open>
  Claim C2, as stated, fails: on the store of ten matched pairs hard mining finds no near
  miss (0 < 18), and easy mining with the walking draws adds 30 easy negatives, more than
  target_easy = 12.
\<close>

theorem negative_fill_counterexample:
  "build_counts (collect_samples walking_runtime ten_store default_args)
     = Some (10, 0, 30, 30, 2)
   \<and> neg_pos_ratio default_args = 3
   \<and> target_hard_of (target_neg_of 10 3) = 18
   \<and> target_easy_of (target_neg_of 10 3) = 12
   \<and> (0 :: nat) < 18 \<and> \<not> (30 :: nat) \<le> 12"
  using counts_walking by (simp add: default_args_def targets_10_3)

text \<open>
  The theorem on three builds with ten positives and no near miss, one for each way the easy
  loop ends. With the walking draws every attempt is accepted: 30 attempts give 30 easy
  negatives and the total reaches 30. With draws that always hit a matched pair all 240
  attempts are rejected and the build ends with no negatives. On the store whose matched
  pairs name only the older run, the candidate pool has a single run and the loop stops at
  its first attempt, again with no negatives.
\<close>

theorem negative_fill_policy_witness:
  "(\<exists>c. collect_samples walking_runtime ten_store default_args = Inr c
      \<and> length (X_rows (positives c)) = 10 \<and> neg_pos_ratio default_args = 3
      \<and> n_hard c = 0 \<and> n_easy c = 30 \<and> n_easy c \<le> 30 - n_hard c
      \<and> easy_attempts_made c = 30 \<and> length (X_rows (negatives c)) = 30)
   \<and> (\<exists>c. collect_samples sample_runtime ten_store default_args = Inr c
      \<and> length (X_rows (positives c)) = 10
      \<and> n_hard c = 0 \<and> n_easy c = 0 \<and> n_easy c \<le> 30 - n_hard c
      \<and> easy_attempts_made c = 240 \<and> length (X_rows (negatives c)) = 0)
   \<and> (\<exists>c. collect_samples sample_runtime one_run_store default_args = Inr c
      \<and> length (X_rows (positives c)) = 10
      \<and> n_hard c = 0 \<and> n_easy c = 0 \<and> n_easy c \<le> 30 - n_hard c
      \<and> length (candidate_run_ids c) < 2 \<and> length (X_rows (negatives c)) = 0)"
proof -
  have r: "neg_pos_ratio default_args = 3" by (simp add: default_args_def)
  from build_counts_Some [OF counts_walking] obtain c1 where
    c1: "collect_samples walking_runtime ten_store default_args = Inr c1"
      "length (X_rows (positives c1)) = 10" and
    v1: "n_hard c1 = 0" "n_easy c1 = 30" "easy_attempts_made c1 = 30"
    by blast
  from build_counts_Some [OF counts_rejected] obtain c2 where
    c2: "collect_samples sample_runtime ten_store default_args = Inr c2"
      "length (X_rows (positives c2)) = 10" and
    v2: "n_hard c2 = 0" "n_easy c2 = 0" "easy_attempts_made c2 = 240"
    by blast
  from build_counts_Some [OF counts_one_run] obtain c3 where
    c3: "collect_samples sample_runtime one_run_store default_args = Inr c3"
      "length (X_rows (positives c3)) = 10" and
    v3: "n_hard c3 = 0" "n_easy c3 = 0" "length (candidate_run_ids c3) = 1"
    by blast
  have w1: "\<exists>c. collect_samples walking_runtime ten_store default_args = Inr c
      \<and> length (X_rows (positives c)) = 10 \<and> neg_pos_ratio default_args = 3
      \<and> n_hard c = 0 \<and> n_easy c = 30 \<and> n_easy c \<le> 30 - n_hard c
      \<and> easy_attempts_made c = 30 \<and> length (X_rows (negatives c)) = 30"
    using negative_fill_policy [OF c1 r] c1 r v1 by (intro exI [of _ c1]) simp
  have w2: "\<exists>c. collect_samples sample_runtime ten_store default_args = Inr c
      \<and> length (X_rows (positives c)) = 10
      \<and> n_hard c = 0 \<and> n_easy c = 0 \<and> n_easy c \<le> 30 - n_hard c
      \<and> easy_attempts_made c = 240 \<and> length (X_rows (negatives c)) = 0"
    using negative_fill_policy [OF c2 r] c2 v2 by (intro exI [of _ c2]) simp
  have w3: "\<exists>c. collect_samples sample_runtime one_run_store default_args = Inr c
      \<and> length (X_rows (positives c)) = 10
      \<and> n_hard c = 0 \<and> n_easy c = 0 \<and> n_easy c \<le> 30 - n_hard c
      \<and> length (candidate_run_ids c) < 2 \<and> length (X_rows (negatives c)) = 0"
    using negative_fill_policy [OF c3 r] c3 v3 by (intro exI [of _ c3]) simp
  from w1 w2 w3 show ?thesis by blast
qed

text \<open>
  The theorem on a store without matched pairs, on a store whose matched pair has no
  feature documents, on a store whose matched pairs are found by the probe under another
  casing but have no feature documents either, and on the small store.
\<close>

theorem data_absence_aborts_witness:
  "load_matched_pairs (sample_store [] []) = []
   \<and> build_dataset sample_runtime (sample_store [] []) default_args =
       Inl (SystemExit ''[DATASET] ERROR: No matched pairs in any collection. Aborting.'' 1)
   \<and> no_resolvable_pair sample_runtime (sample_store [sample_pair ''p'' ''q''] []) default_args
   \<and> build_dataset sample_runtime (sample_store [sample_pair ''p'' ''q''] []) default_args =
       Inl (SystemExit ''[DATASET] ERROR: No valid positive samples. Aborting.'' 1)
   \<and> load_matched_pairs renamed_store \<noteq> []
   \<and> no_resolvable_pair sample_runtime renamed_store default_args
   \<and> build_dataset sample_runtime renamed_store default_args =
       Inl (SystemExit ''[DATASET] ERROR: No valid positive samples. Aborting.'' 1)
   \<and> build_dataset sample_runtime small_store default_args = Inr small_dataset
   \<and> load_matched_pairs small_store \<noteq> []
   \<and> \<not> no_resolvable_pair sample_runtime small_store default_args"
proof -
  have a: "load_matched_pairs (sample_store [] []) = []"
    by code_simp
  have b: "no_resolvable_pair sample_runtime (sample_store [sample_pair ''p'' ''q''] []) default_args"
    by code_simp
  have c: "no_resolvable_pair sample_runtime renamed_store default_args"
    by code_simp
  from data_absence_aborts [of "sample_store [] []" sample_runtime default_args]
    data_absence_aborts [of renamed_store sample_runtime default_args]
    data_absence_aborts [of "sample_store [sample_pair ''p'' ''q''] []" sample_runtime default_args]
    data_absence_aborts [of small_store sample_runtime default_args small_dataset]
    a b c build_small_store probe_finds_other_casing
  show ?thesis by auto
qed

text \<open>
  The theorem on the small store, for the identity and the reversing set iteration order.
\<close>

theorem build_reproducible_witness:
  "(\<forall>xs. set (set_iteration sample_runtime xs) = set xs)
   \<and> (\<forall>xs. set (set_iteration (sample_runtime\<lparr>set_iteration := rev\<rparr>) xs) = set xs)
   \<and> build_dataset sample_runtime small_store default_args
       = build_dataset (sample_runtime\<lparr>set_iteration := rev\<rparr>) small_store default_args
   \<and> build_dataset (sample_runtime\<lparr>set_iteration := rev\<rparr>) small_store default_args
       = Inr small_dataset"
proof -
  have a: "\<forall>xs. set (set_iteration sample_runtime xs) = set xs"
    by (simp add: sample_runtime_def)
  have b: "\<forall>xs. set (set_iteration (sample_runtime\<lparr>set_iteration := rev\<rparr>) xs) = set xs"
    by simp
  from build_reproducible [OF a b, of small_store default_args] build_small_store a b
  show ?thesis by simp
qed

end
